theory Spec2Isabelle
  imports Main "HOL-Library.Multiset"
begin

section \<open>JavaScript values of a request body\<close>

text \<open>
  A field of a parsed JSON request body, or a column of a row returned by the store.
  \<open>JUndefined\<close> is an absent field. Numbers are integers in this model (ids and
  quantities); fractional numbers, arrays and nested objects as field values are outside it.
\<close>

datatype jsval = JUndefined | JNull | JBool bool | JNum int | JStr string

text \<open>\<open>!v\<close> is \<open>\<not> truthy v\<close>: undefined, null, false, 0 and the empty string are falsy.\<close>

fun truthy :: "jsval \<Rightarrow> bool" where
  "truthy JUndefined = False"
| "truthy JNull = False"
| "truthy (JBool b) = b"
| "truthy (JNum n) = (n \<noteq> 0)"
| "truthy (JStr s) = (s \<noteq> [])"

text \<open>\<open>a || b\<close> on values.\<close>

definition js_or :: "jsval \<Rightarrow> jsval \<Rightarrow> jsval" where
  "js_or a b = (if truthy a then a else b)"

text \<open>
  Strings that are decimal integer literals: surrounding white space is dropped, the empty
  string is 0, and an optional sign with decimal digits gives its value. \<open>None\<close> says that
  the string is not such a literal; it says nothing about its numeric value.
\<close>

definition is_space :: "char \<Rightarrow> bool" where
  "is_space c = (c \<in> {CHR '' '', CHR 0x09, CHR 0x0A, CHR 0x0B, CHR 0x0C, CHR 0x0D})"

definition is_digit :: "char \<Rightarrow> bool" where
  "is_digit c = (48 \<le> (of_char c :: nat) \<and> (of_char c :: nat) \<le> 57)"

fun digits_to_nat :: "string \<Rightarrow> nat \<Rightarrow> nat option" where
  "digits_to_nat [] acc = Some acc"
| "digits_to_nat (c # cs) acc =
     (if is_digit c then digits_to_nat cs (10 * acc + (of_char c - 48)) else None)"

definition unsigned_literal :: "string \<Rightarrow> int option" where
  "unsigned_literal ds = (if ds = [] then None else map_option int (digits_to_nat ds 0))"

definition trim :: "string \<Rightarrow> string" where
  "trim s = rev (dropWhile is_space (rev (dropWhile is_space s)))"

definition integer_literal :: "string \<Rightarrow> int option" where
  "integer_literal s =
     (case trim s of
        [] \<Rightarrow> Some 0
      | c # cs \<Rightarrow>
          if c = CHR ''+'' then unsigned_literal cs
          else if c = CHR ''-'' then map_option uminus (unsigned_literal cs)
          else unsigned_literal (c # cs))"

text \<open>
  The JavaScript engine is not part of the repository. For a string that is not a decimal
  integer literal (a fraction, an exponent, a hexadecimal literal, \<open>Infinity\<close>, other white
  space, or no number at all), what \<open>s <= 0\<close> gives is the engine's answer, taken as a
  parameter of every handler that compares: the theorems hold for every engine.
\<close>

type_synonym engine = "string \<Rightarrow> bool"

text \<open>
  \<open>v <= 0\<close>: the value is converted to a number; undefined is NaN and the comparison false,
  null is 0, true is 1 and false is 0.
\<close>

fun js_le_zero :: "engine \<Rightarrow> jsval \<Rightarrow> bool" where
  "js_le_zero eng JUndefined = False"
| "js_le_zero eng JNull = True"
| "js_le_zero eng (JBool b) = (\<not> b)"
| "js_le_zero eng (JNum n) = (n \<le> 0)"
| "js_le_zero eng (JStr s) = (case integer_literal s of Some n \<Rightarrow> n \<le> 0 | None \<Rightarrow> eng s)"

section \<open>The relational store\<close>

record cart_row =
  cart_id :: nat
  cart_user_id :: jsval
  cart_product_id :: jsval
  cart_size_id :: jsval
  cart_quantity :: jsval
  added_at :: string

record order_row =
  order_id :: nat
  order_user_id :: jsval
  order_status :: string
  created_at :: string

record orderitem_row =
  item_order_id :: nat
  item_product_id :: jsval
  item_size_id :: jsval
  item_quantity :: jsval

record product_row =
  product_id :: jsval
  title :: string

record superuser_row =
  superuser_id :: jsval

text \<open>One call of the data-access client, as it goes out to the store.\<close>

datatype store_call = Select string | Insert string | Delete string

text \<open>
  The tables the order workflow touches, the two sequences that number new cart lines and
  new orders, and the calls made to the store so far, oldest first. A column holds the JSON
  value that was inserted, and the equality filters of the client compare values as they are.
\<close>

record db =
  cart :: "cart_row list"
  orders :: "order_row list"
  orderitems :: "orderitem_row list"
  products :: "product_row list"
  product_sizes :: "(jsval \<times> jsval) list"
  superusers :: "superuser_row list"
  next_cart_id :: nat
  next_order_id :: nat
  trace :: "store_call list"

text \<open>
  What a call of the client does, chosen by the environment: it answers with data, it
  answers with an \<open>error\<close> object (and changes nothing), or it throws.
  The k-th call a process makes (counted by the length of the trace) gets the k-th fault.
\<close>

datatype fault = NoFault | ReturnsError | Throws

type_synonym faults = "nat \<Rightarrow> fault"

datatype 'a reply = Data 'a | Error | Thrown

text \<open>
  Modelled from the spec: the data-access boundary of section 6 (the client library is not
  part of the repository). A call is recorded in the trace, then the fault decides; a call that
  does not succeed leaves every table as it was.
\<close>

definition call_store :: "faults \<Rightarrow> store_call \<Rightarrow> (db \<Rightarrow> 'a \<times> db) \<Rightarrow> db \<Rightarrow> 'a reply \<times> db" where
  "call_store flt c run s =
     (let s1 = s\<lparr>trace := trace s @ [c]\<rparr> in
      case flt (length (trace s)) of
        NoFault \<Rightarrow> (case run s1 of (x, s2) \<Rightarrow> (Data x, s2))
      | ReturnsError \<Rightarrow> (Error, s1)
      | Throws \<Rightarrow> (Thrown, s1))"

text \<open>Modelled from the spec: \<open>.single()\<close> answers with the row when exactly one row matches.\<close>

definition single :: "faults \<Rightarrow> store_call \<Rightarrow> (db \<Rightarrow> 'a list) \<Rightarrow> db \<Rightarrow> 'a reply \<times> db" where
  "single flt c rows s =
     (case call_store flt c (\<lambda>t. (rows t, t)) s of
        (Data [r], s1) \<Rightarrow> (Data r, s1)
      | (Data _, s1) \<Rightarrow> (Error, s1)
      | (Error, s1) \<Rightarrow> (Error, s1)
      | (Thrown, s1) \<Rightarrow> (Thrown, s1))"

text \<open>The cart lines of a user: the rows an equality filter on \<open>user_id\<close> selects.\<close>

definition cart_of :: "jsval \<Rightarrow> db \<Rightarrow> cart_row list" where
  "cart_of uid t = filter (\<lambda>r. cart_user_id r = uid) (cart t)"

text \<open>Modelled from the spec: \<open>from('cart').select('*').eq('user_id', uid)\<close>.\<close>

definition select_cart :: "faults \<Rightarrow> jsval \<Rightarrow> db \<Rightarrow> cart_row list reply \<times> db" where
  "select_cart flt uid = call_store flt (Select ''cart'') (\<lambda>t. (cart_of uid t, t))"

text \<open>
  Modelled from the spec: \<open>from('cart').insert([line]).select()\<close>. The store numbers the
  new line from its sequence and stamps it with its clock \<open>now\<close>; the inserted rows come back.
\<close>

definition insert_cart :: "faults \<Rightarrow> string \<Rightarrow> jsval \<Rightarrow> jsval \<Rightarrow> jsval \<Rightarrow> jsval \<Rightarrow> db \<Rightarrow>
    cart_row list reply \<times> db" where
  "insert_cart flt now uid pid sid qty =
     call_store flt (Insert ''cart'')
       (\<lambda>t. let r = \<lparr>cart_id = next_cart_id t, cart_user_id = uid, cart_product_id = pid,
                      cart_size_id = sid, cart_quantity = qty, added_at = now\<rparr>
            in ([r], t\<lparr>cart := cart t @ [r], next_cart_id := Suc (next_cart_id t)\<rparr>))"

text \<open>Modelled from the spec: \<open>from('cart').delete().eq('user_id', uid)\<close>.\<close>

definition delete_cart :: "faults \<Rightarrow> jsval \<Rightarrow> db \<Rightarrow> unit reply \<times> db" where
  "delete_cart flt uid =
     call_store flt (Delete ''cart'')
       (\<lambda>t. ((), t\<lparr>cart := filter (\<lambda>r. cart_user_id r \<noteq> uid) (cart t)\<rparr>))"

text \<open>
  Modelled from the spec: \<open>from('orders').insert([order]).select().single()\<close>. One row is
  inserted, numbered from the orders sequence, and comes back.
\<close>

definition insert_order :: "faults \<Rightarrow> jsval \<Rightarrow> string \<Rightarrow> string \<Rightarrow> db \<Rightarrow> order_row reply \<times> db" where
  "insert_order flt uid st ts =
     call_store flt (Insert ''orders'')
       (\<lambda>t. let r = \<lparr>order_id = next_order_id t, order_user_id = uid, order_status = st,
                      created_at = ts\<rparr>
            in (r, t\<lparr>orders := orders t @ [r], next_order_id := Suc (next_order_id t)\<rparr>))"

text \<open>Modelled from the spec: \<open>from('orderitems').insert(rows).select()\<close>, one batch.\<close>

definition insert_orderitems :: "faults \<Rightarrow> orderitem_row list \<Rightarrow> db \<Rightarrow> orderitem_row list reply \<times> db" where
  "insert_orderitems flt rows =
     call_store flt (Insert ''orderitems'') (\<lambda>t. (rows, t\<lparr>orderitems := orderitems t @ rows\<rparr>))"

text \<open>Modelled from the spec: \<open>from('products').select('id, title').eq('id', pid).single()\<close>.\<close>

definition select_product :: "faults \<Rightarrow> jsval \<Rightarrow> db \<Rightarrow> product_row reply \<times> db" where
  "select_product flt pid =
     single flt (Select ''products'') (\<lambda>t. filter (\<lambda>r. product_id r = pid) (products t))"

text \<open>
  Modelled from the spec:
  \<open>from('product_sizes').select('size_id').eq('product_id', pid).eq('size_id', sid).single()\<close>.
\<close>

definition select_product_size :: "faults \<Rightarrow> jsval \<Rightarrow> jsval \<Rightarrow> db \<Rightarrow> jsval reply \<times> db" where
  "select_product_size flt pid sid =
     single flt (Select ''product_sizes'')
       (\<lambda>t. map snd (filter (\<lambda>r. fst r = pid \<and> snd r = sid) (product_sizes t)))"

text \<open>
  Modelled from the spec: \<open>from('superusers').select(...).eq('id', uid).single()\<close>. \<open>data\<close> is
  nullable for the caller (\<open>None\<close> is \<open>null\<close>); with \<open>.single()\<close> an answer without error
  carries the row.
\<close>

definition select_superuser :: "faults \<Rightarrow> jsval \<Rightarrow> db \<Rightarrow> superuser_row option reply \<times> db" where
  "select_superuser flt uid s =
     (case single flt (Select ''superusers'')
             (\<lambda>t. filter (\<lambda>r. superuser_id r = uid) (superusers t)) s of
        (Data r, s1) \<Rightarrow> (Data (Some r), s1)
      | (Error, s1) \<Rightarrow> (Error, s1)
      | (Thrown, s1) \<Rightarrow> (Thrown, s1))"

section \<open>Responses\<close>

datatype body =
    ErrorBody string
  | ProductNotFound jsval
  | InvalidSize jsval jsval
  | CartItemBody string "cart_row option"
  | OrderPlaced string order_row "orderitem_row list"
  | OrderCreated string order_row "orderitem_row list"

record response =
  status :: nat
  json :: body

definition respond :: "nat \<Rightarrow> body \<Rightarrow> response" where
  "respond code b = \<lparr>status = code, json = b\<rparr>"

section \<open>The cart routes\<close>

record add_request =
  add_user_id :: jsval
  add_product_id :: jsval
  add_size_id :: jsval
  add_quantity :: jsval

text \<open>\<open>POST /api/cart/add\<close>.\<close>

definition cart_add :: "engine \<Rightarrow> faults \<Rightarrow> string \<Rightarrow> add_request \<Rightarrow> db \<Rightarrow> response \<times> db" where
  "cart_add eng flt now req s =
     (if \<not> truthy (add_user_id req) \<or> \<not> truthy (add_product_id req) \<or>
         js_le_zero eng (add_quantity req)
      then (respond 400 (ErrorBody ''User ID, Product ID, and valid quantity are required.''), s)
      else
        case insert_cart flt now (add_user_id req) (add_product_id req)
               (js_or (add_size_id req) JNull) (js_or (add_quantity req) (JNum 1)) s of
          (Error, s1) \<Rightarrow> (respond 500 (ErrorBody ''Failed to add product to cart.''), s1)
        | (Thrown, s1) \<Rightarrow> (respond 500 (ErrorBody ''Internal server error.''), s1)
        | (Data rows, s1) \<Rightarrow>
            (respond 201 (CartItemBody ''Product added to cart successfully!''
               (case rows of [] \<Rightarrow> None | r # _ \<Rightarrow> Some r)), s1))"

record user_request =
  req_user_id :: jsval

text \<open>The response of every \<open>catch\<close> block.\<close>

definition internal_error :: response where
  "internal_error = respond 500 (ErrorBody ''Internal server error.'')"

text \<open>The callback of \<open>cartItems.map\<close>: one order item per cart line.\<close>

definition to_order_item :: "nat \<Rightarrow> cart_row \<Rightarrow> orderitem_row" where
  "to_order_item oid item =
     \<lparr>item_order_id = oid, item_product_id = cart_product_id item,
      item_size_id = cart_size_id item, item_quantity = cart_quantity item\<rparr>"

text \<open>
  \<open>POST /api/cart/place-order\<close>. \<open>now\<close> is \<open>new Date().toISOString()\<close> at the order insert.
  Every store call is inside the handler's \<open>try\<close>: a call that throws ends in the \<open>catch\<close>.
\<close>

definition place_order :: "faults \<Rightarrow> string \<Rightarrow> user_request \<Rightarrow> db \<Rightarrow> response \<times> db" where
  "place_order flt now req s =
     (if \<not> truthy (req_user_id req)
      then (respond 400 (ErrorBody ''User ID is required to place an order.''), s)
      else
        (case select_cart flt (req_user_id req) s of
           (Thrown, s1) \<Rightarrow> (internal_error, s1)
         | (Error, s1) \<Rightarrow> (respond 400 (ErrorBody ''No items in the cart to place an order.''), s1)
         | (Data cartItems, s1) \<Rightarrow>
             if cartItems = []
             then (respond 400 (ErrorBody ''No items in the cart to place an order.''), s1)
             else
               (case insert_order flt (req_user_id req) ''Pending'' now s1 of
                  (Thrown, s2) \<Rightarrow> (internal_error, s2)
                | (Error, s2) \<Rightarrow> (respond 500 (ErrorBody ''Failed to create the order.''), s2)
                | (Data orderData, s2) \<Rightarrow>
                    (let orderId = order_id orderData;
                         orderItems = map (to_order_item orderId) cartItems
                     in (case insert_orderitems flt orderItems s2 of
                           (Thrown, s3) \<Rightarrow> (internal_error, s3)
                         | (Error, s3) \<Rightarrow>
                             (respond 500 (ErrorBody ''Failed to add items to the order.''), s3)
                         | (Data orderItemsData, s3) \<Rightarrow>
                             (case delete_cart flt (req_user_id req) s3 of
                                (Thrown, s4) \<Rightarrow> (internal_error, s4)
                              | (Error, s4) \<Rightarrow>
                                  (respond 500
                                     (ErrorBody ''Failed to clear the cart after placing the order.''),
                                   s4)
                              | (Data u, s4) \<Rightarrow>
                                  (respond 201
                                     (OrderPlaced ''Order placed successfully!'' orderData
                                        orderItemsData),
                                   s4)))))))"

section \<open>The order routes\<close>

text \<open>
  \<open>isSuperUser\<close> as the order and product routes define it:
  \<open>if (error || !superuser) return false; return true\<close>, and \<open>false\<close> in the \<open>catch\<close>.
  The result is what the \<open>async\<close> function settles with: a returned value, or a thrown
  exception.
\<close>

datatype 'a outcome = Returns 'a | Raises

definition isSuperUser :: "faults \<Rightarrow> jsval \<Rightarrow> db \<Rightarrow> bool outcome \<times> db" where
  "isSuperUser flt user_id s =
     (case select_superuser flt user_id s of
        (Thrown, s1) \<Rightarrow> (Returns False, s1)
      | (Error, s1) \<Rightarrow> (Returns False, s1)
      | (Data superuser, s1) \<Rightarrow>
          if superuser = None then (Returns False, s1) else (Returns True, s1))"

text \<open>
  \<open>isSuperUser\<close> as the size and category routes define it:
  \<open>if (error) return false; return superuser !== null\<close>, and \<open>false\<close> in the \<open>catch\<close>.
\<close>

definition isSuperUser_sizes :: "faults \<Rightarrow> jsval \<Rightarrow> db \<Rightarrow> bool outcome \<times> db" where
  "isSuperUser_sizes flt user_id s =
     (case select_superuser flt user_id s of
        (Thrown, s1) \<Rightarrow> (Returns False, s1)
      | (Error, s1) \<Rightarrow> (Returns False, s1)
      | (Data superuser, s1) \<Rightarrow> (Returns (superuser \<noteq> None), s1))"

record item =
  product :: jsval
  size :: jsval
  quantity :: jsval

text \<open>
  An element of the submitted \<open>items\<close> array: \<open>null\<close>, a primitive (a number, a string or a
  boolean), or an object with its three fields (absent ones are \<open>JUndefined\<close>; a nested array
  is an object without them).
\<close>

datatype entry = NullEntry | PrimitiveEntry | ObjectEntry item

text \<open>
  What the loop body reads from an element: a property read on \<open>null\<close> throws a TypeError
  (\<open>None\<close>), on a primitive every one of the three properties is undefined.
\<close>

fun read_item :: "entry \<Rightarrow> item option" where
  "read_item NullEntry = None"
| "read_item PrimitiveEntry = Some \<lparr>product = JUndefined, size = JUndefined, quantity = JUndefined\<rparr>"
| "read_item (ObjectEntry it) = Some it"

text \<open>
  The \<open>items\<close> field of the body: a falsy value (absent, \<open>null\<close>, \<open>false\<close>, 0), an array, a
  string, or any other truthy value (\<open>true\<close>, a number, an object that is no array), which is
  not iterable; the flag of the last says whether its \<open>length\<close> property is 0.
\<close>

datatype items_field = ItemsFalsy | ItemsArray "entry list" | ItemsString string | ItemsOther bool

text \<open>\<open>!items\<close>: the empty string is falsy too.\<close>

fun items_falsy :: "items_field \<Rightarrow> bool" where
  "items_falsy ItemsFalsy = True"
| "items_falsy (ItemsString str) = (str = [])"
| "items_falsy (ItemsArray es) = False"
| "items_falsy (ItemsOther z) = False"

text \<open>\<open>items.length === 0\<close>, read only when \<open>items\<close> is truthy.\<close>

fun length_is_zero :: "items_field \<Rightarrow> bool" where
  "length_is_zero (ItemsArray es) = (es = [])"
| "length_is_zero (ItemsString str) = (str = [])"
| "length_is_zero (ItemsOther z) = z"
| "length_is_zero ItemsFalsy = False"

text \<open>
  \<open>for (const item of items)\<close>: an array yields its elements, a string its characters (each
  a primitive), and anything else is not iterable, so the loop throws a TypeError (\<open>None\<close>).
\<close>

fun iterate :: "items_field \<Rightarrow> entry list option" where
  "iterate (ItemsArray es) = Some es"
| "iterate (ItemsString str) = Some (map (\<lambda>c. PrimitiveEntry) str)"
| "iterate (ItemsOther z) = None"
| "iterate ItemsFalsy = None"

record order_request =
  ord_user_id :: jsval
  ord_items :: items_field

text \<open>
  The size check of one item in \<open>POST /api/orders\<close>, made when the item has a truthy
  \<open>size_id\<close>: \<open>Some\<close> is the response of the early \<open>return\<close> (or of the \<open>catch\<close>).
\<close>

definition check_size :: "faults \<Rightarrow> item \<Rightarrow> db \<Rightarrow> response option \<times> db" where
  "check_size flt item s =
     (if truthy (size item)
      then
        (case select_product_size flt (product item) (size item) s of
           (Thrown, s1) \<Rightarrow> (Some internal_error, s1)
         | (Error, s1) \<Rightarrow> (Some (respond 400 (InvalidSize (size item) (product item))), s1)
         | (Data sizeData, s1) \<Rightarrow> (None, s1))
      else (None, s))"

definition formatted :: "nat \<Rightarrow> item \<Rightarrow> orderitem_row" where
  "formatted orderId item =
     \<lparr>item_order_id = orderId, item_product_id = product item,
      item_size_id = js_or (size item) JNull, item_quantity = quantity item\<rparr>"

text \<open>
  The body of the \<open>for (const item of items)\<close> loop of \<open>POST /api/orders\<close>, run over the
  elements: each item is validated, its product is looked up, its size (when it has one) is
  looked up, and it is pushed onto \<open>formattedItems\<close>. \<open>Inl\<close> is the response of an early
  \<open>return\<close> or of the \<open>catch\<close> (a store call that throws, a \<open>null\<close> element), \<open>Inr\<close> the
  finished list.
\<close>

fun format_items :: "engine \<Rightarrow> faults \<Rightarrow> nat \<Rightarrow> entry list \<Rightarrow> orderitem_row list \<Rightarrow> db \<Rightarrow>
    (response + orderitem_row list) \<times> db" where
  "format_items eng flt orderId [] formattedItems s = (Inr formattedItems, s)"
| "format_items eng flt orderId (e # es) formattedItems s =
     (case read_item e of
        None \<Rightarrow> (Inl internal_error, s)
      | Some item \<Rightarrow>
          if \<not> truthy (product item) \<or> \<not> truthy (quantity item) \<or> js_le_zero eng (quantity item)
          then (Inl (respond 400
                  (ErrorBody ''Each item must have a valid product_id and quantity.'')), s)
          else
            (case select_product flt (product item) s of
               (Thrown, s1) \<Rightarrow> (Inl internal_error, s1)
             | (Error, s1) \<Rightarrow> (Inl (respond 404 (ProductNotFound (product item))), s1)
             | (Data productData, s1) \<Rightarrow>
                 (case check_size flt item s1 of
                    (Some early, s2) \<Rightarrow> (Inl early, s2)
                  | (None, s2) \<Rightarrow>
                      format_items eng flt orderId es
                        (formattedItems @ [formatted orderId item]) s2)))"

text \<open>
  \<open>POST /api/orders\<close>. The first check is outside the handler's \<open>try\<close> and makes no store
  call. After the order insert the loop starts; when \<open>items\<close> is not iterable the loop throws
  and the \<open>catch\<close> answers.
\<close>

definition create_order :: "engine \<Rightarrow> faults \<Rightarrow> string \<Rightarrow> order_request \<Rightarrow> db \<Rightarrow> response \<times> db" where
  "create_order eng flt now req s =
     (if \<not> truthy (ord_user_id req) \<or> items_falsy (ord_items req) \<or> length_is_zero (ord_items req)
      then (respond 400
              (ErrorBody ''User ID and at least one item are required to create an order.''), s)
      else
        (case insert_order flt (ord_user_id req) ''Pending'' now s of
           (Thrown, s1) \<Rightarrow> (internal_error, s1)
         | (Error, s1) \<Rightarrow> (respond 500 (ErrorBody ''Failed to create the order.''), s1)
         | (Data orderData, s1) \<Rightarrow>
             (case iterate (ord_items req) of
                None \<Rightarrow> (internal_error, s1)
              | Some entries \<Rightarrow>
                  (case format_items eng flt (order_id orderData) entries [] s1 of
                     (Inl early, s2) \<Rightarrow> (early, s2)
                   | (Inr formattedItems, s2) \<Rightarrow>
                       (case insert_orderitems flt formattedItems s2 of
                          (Thrown, s3) \<Rightarrow> (internal_error, s3)
                        | (Error, s3) \<Rightarrow>
                            (respond 500 (ErrorBody ''Failed to add items to the order.''), s3)
                        | (Data itemsData, s3) \<Rightarrow>
                            (respond 201
                               (OrderCreated ''Order created successfully!'' orderData itemsData),
                             s3))))))"

section \<open>Store invariant and concrete scenarios\<close>

text \<open>
  The sequences run ahead of the rows: every order, every order item's order reference and
  every cart line carries a number the sequence has already handed out.
\<close>

definition db_ok :: "db \<Rightarrow> bool" where
  "db_ok s =
     ((\<forall>ord \<in> set (orders s). order_id ord < next_order_id s) \<and>
      (\<forall>i \<in> set (orderitems s). item_order_id i < next_order_id s) \<and>
      (\<forall>c \<in> set (cart s). cart_id c < next_cart_id s))"

text \<open>What an order item and a cart line say about the purchase.\<close>

definition item_triple :: "orderitem_row \<Rightarrow> jsval \<times> jsval \<times> jsval" where
  "item_triple i = (item_product_id i, item_size_id i, item_quantity i)"

definition cart_triple :: "cart_row \<Rightarrow> jsval \<times> jsval \<times> jsval" where
  "cart_triple c = (cart_product_id c, cart_size_id c, cart_quantity c)"

text \<open>The order items that reference an order.\<close>

definition items_of :: "nat \<Rightarrow> db \<Rightarrow> orderitem_row list" where
  "items_of oid t = filter (\<lambda>i. item_order_id i = oid) (orderitems t)"

text \<open>Fault plans: no call fails; only the k-th call answers with an error, or throws.\<close>

definition no_faults :: faults where
  "no_faults k = NoFault"

definition error_at :: "nat \<Rightarrow> faults" where
  "error_at k n = (if n = k then ReturnsError else NoFault)"

definition throw_at :: "nat \<Rightarrow> faults" where
  "throw_at k n = (if n = k then Throws else NoFault)"

text \<open>
  The scenario of the spec: user u1 has two cart lines, (5, null, 2) and (7, 3, 1); another
  user has one line. One earlier order with one item exists.
\<close>

definition scenario :: db where
  "scenario =
     \<lparr>cart =
        [\<lparr>cart_id = 0, cart_user_id = JStr ''u1'', cart_product_id = JNum 5, cart_size_id = JNull,
          cart_quantity = JNum 2, added_at = ''t0''\<rparr>,
         \<lparr>cart_id = 1, cart_user_id = JStr ''u2'', cart_product_id = JNum 5, cart_size_id = JNull,
          cart_quantity = JNum 4, added_at = ''t0''\<rparr>,
         \<lparr>cart_id = 2, cart_user_id = JStr ''u1'', cart_product_id = JNum 7, cart_size_id = JNum 3,
          cart_quantity = JNum 1, added_at = ''t0''\<rparr>],
      orders =
        [\<lparr>order_id = 0, order_user_id = JStr ''u2'', order_status = ''Pending'', created_at = ''t0''\<rparr>],
      orderitems =
        [\<lparr>item_order_id = 0, item_product_id = JNum 7, item_size_id = JNum 3,
          item_quantity = JNum 1\<rparr>],
      products = [\<lparr>product_id = JNum 5, title = ''bread''\<rparr>, \<lparr>product_id = JNum 7, title = ''cake''\<rparr>],
      product_sizes = [(JNum 7, JNum 3)],
      superusers = [\<lparr>superuser_id = JStr ''admin''\<rparr>],
      next_cart_id = 3, next_order_id = 1, trace = []\<rparr>"

definition u1 :: user_request where
  "u1 = \<lparr>req_user_id = JStr ''u1''\<rparr>"

definition u3 :: user_request where
  "u3 = \<lparr>req_user_id = JStr ''u3''\<rparr>"

text \<open>
  An engine for the concrete scenarios: every string that is no decimal integer literal is
  read as NaN. The quantities of the scenarios are numbers, so it is never consulted there.
\<close>

definition nan_engine :: engine where
  "nan_engine str = False"

text \<open>An explicit item list whose only item has quantity 0.\<close>

definition zero_quantity :: item where
  "zero_quantity = \<lparr>product = JNum 5, size = JUndefined, quantity = JNum 0\<rparr>"

definition zero_quantity_order :: order_request where
  "zero_quantity_order =
     \<lparr>ord_user_id = JStr ''u1'', ord_items = ItemsArray [ObjectEntry zero_quantity]\<rparr>"

text \<open>What the claims about \<open>POST /api/orders\<close> call an existing product and an existing size pair.\<close>

definition product_exists :: "jsval \<Rightarrow> db \<Rightarrow> bool" where
  "product_exists pid t = (\<exists>p \<in> set (products t). product_id p = pid)"

definition size_offered :: "jsval \<Rightarrow> jsval \<Rightarrow> db \<Rightarrow> bool" where
  "size_offered pid sid t = ((pid, sid) \<in> set (product_sizes t))"

definition references_exist :: "item \<Rightarrow> db \<Rightarrow> bool" where
  "references_exist it t =
     (product_exists (product it) t \<and> (truthy (size it) \<longrightarrow> size_offered (product it) (size it) t))"

text \<open>The first check of the loop body: \<open>product_id\<close> and \<open>quantity\<close> truthy, quantity above 0.\<close>

definition well_formed :: "engine \<Rightarrow> item \<Rightarrow> bool" where
  "well_formed eng it =
     (truthy (product it) \<and> truthy (quantity it) \<and> \<not> js_le_zero eng (quantity it))"

text \<open>
  An element passes the checks of the loop: it can be read, is well formed, and its product
  and size references exist.
\<close>

definition entry_passes :: "engine \<Rightarrow> entry \<Rightarrow> db \<Rightarrow> bool" where
  "entry_passes eng e t =
     (case read_item e of
        None \<Rightarrow> False
      | Some it \<Rightarrow> well_formed eng it \<and> references_exist it t)"

text \<open>The store calls a request made: the trace after it, without the trace before it.\<close>

definition calls_made :: "db \<Rightarrow> db \<Rightarrow> store_call list" where
  "calls_made s s' = drop (length (trace s)) (trace s')"

text \<open>
  Two states that differ only by product and size lookups recorded in the trace.
\<close>

definition lookups_only :: "db \<Rightarrow> db \<Rightarrow> bool" where
  "lookups_only s s' =
     (\<exists>sel. s' = s\<lparr>trace := trace s @ sel\<rparr> \<and> set sel \<subseteq> {Select ''products'', Select ''product_sizes''})"

text \<open>The order row a request creates, and the state right after its insert.\<close>

definition new_order :: "jsval \<Rightarrow> string \<Rightarrow> db \<Rightarrow> order_row" where
  "new_order uid ts s =
     \<lparr>order_id = next_order_id s, order_user_id = uid, order_status = ''Pending'', created_at = ts\<rparr>"

definition order_inserted :: "jsval \<Rightarrow> string \<Rightarrow> db \<Rightarrow> db" where
  "order_inserted uid ts s =
     s\<lparr>trace := trace s @ [Insert ''orders''], orders := orders s @ [new_order uid ts s],
       next_order_id := Suc (next_order_id s)\<rparr>"

text \<open>
  An element the loop of \<open>POST /api/orders\<close> lets through when no call fails: it can be
  read and is well formed, exactly one product row has its product id and, when it has a
  truthy size, exactly one product_sizes row has its pair.
\<close>

definition accepted :: "engine \<Rightarrow> entry \<Rightarrow> db \<Rightarrow> bool" where
  "accepted eng e t =
     (case read_item e of
        None \<Rightarrow> False
      | Some it \<Rightarrow>
          well_formed eng it \<and>
          length (filter (\<lambda>r. product_id r = product it) (products t)) = 1 \<and>
          (truthy (size it) \<longrightarrow>
             length (filter (\<lambda>r. fst r = product it \<and> snd r = size it) (product_sizes t)) = 1))"

text \<open>
  Items: two that pass every check in the scenario, one whose product is unknown, one whose
  size is not offered for its product, and one whose quantity is the string \<open>-1.5\<close>.
\<close>

definition bread :: item where
  "bread = \<lparr>product = JNum 5, size = JUndefined, quantity = JNum 2\<rparr>"

definition cake :: item where
  "cake = \<lparr>product = JNum 7, size = JNum 3, quantity = JNum 1\<rparr>"

definition ghost :: item where
  "ghost = \<lparr>product = JNum 99, size = JUndefined, quantity = JNum 1\<rparr>"

definition sized_bread :: item where
  "sized_bread = \<lparr>product = JNum 5, size = JNum 3, quantity = JNum 1\<rparr>"

definition negative_fraction :: item where
  "negative_fraction = \<lparr>product = JNum 5, size = JUndefined, quantity = JStr ''-1.5''\<rparr>"

definition good_order :: order_request where
  "good_order =
     \<lparr>ord_user_id = JStr ''u1'', ord_items = ItemsArray [ObjectEntry bread, ObjectEntry cake]\<rparr>"

definition missing_product_order :: order_request where
  "missing_product_order =
     \<lparr>ord_user_id = JStr ''u1'', ord_items = ItemsArray [ObjectEntry bread, ObjectEntry ghost]\<rparr>"

definition wrong_size_order :: order_request where
  "wrong_size_order =
     \<lparr>ord_user_id = JStr ''u1'',
      ord_items = ItemsArray [ObjectEntry cake, ObjectEntry sized_bread]\<rparr>"

definition late_invalid_order :: order_request where
  "late_invalid_order =
     \<lparr>ord_user_id = JStr ''u1'',
      ord_items = ItemsArray [ObjectEntry cake, ObjectEntry zero_quantity]\<rparr>"

definition fraction_order :: order_request where
  "fraction_order =
     \<lparr>ord_user_id = JStr ''u1'',
      ord_items = ItemsArray [ObjectEntry negative_fraction, ObjectEntry ghost]\<rparr>"

text \<open>An engine that knows \<open>-1.5 <= 0\<close>.\<close>

definition fraction_engine :: engine where
  "fraction_engine str = (str = ''-1.5'')"

text \<open>Bodies whose \<open>items\<close> is an array with a \<open>null\<close> element, and the number 7.\<close>

definition null_entry_order :: order_request where
  "null_entry_order = \<lparr>ord_user_id = JStr ''u1'', ord_items = ItemsArray [NullEntry]\<rparr>"

definition number_items_order :: order_request where
  "number_items_order = \<lparr>ord_user_id = JStr ''u1'', ord_items = ItemsOther False\<rparr>"

text \<open>A request body without \<open>user_id\<close>, and one without an item list.\<close>

definition nobody :: user_request where
  "nobody = \<lparr>req_user_id = JUndefined\<rparr>"

definition no_items_order :: order_request where
  "no_items_order = \<lparr>ord_user_id = JStr ''u1'', ord_items = ItemsFalsy\<rparr>"

text \<open>The lookup of the permission check finds a row for the user id.\<close>

definition superuser_row_exists :: "jsval \<Rightarrow> db \<Rightarrow> bool" where
  "superuser_row_exists uid t = (\<exists>r \<in> set (superusers t). superuser_id r = uid)"

text \<open>Add-to-cart bodies for user u1 and product 5: quantity 2, quantity 3, and no quantity.\<close>

definition add_two :: add_request where
  "add_two = \<lparr>add_user_id = JStr ''u1'', add_product_id = JNum 5, add_size_id = JUndefined,
              add_quantity = JNum 2\<rparr>"

definition add_three :: add_request where
  "add_three = \<lparr>add_user_id = JStr ''u1'', add_product_id = JNum 5, add_size_id = JUndefined,
                add_quantity = JNum 3\<rparr>"

definition add_no_quantity :: add_request where
  "add_no_quantity = \<lparr>add_user_id = JStr ''u1'', add_product_id = JNum 5, add_size_id = JUndefined,
                      add_quantity = JUndefined\<rparr>"

section \<open>Facts about the store calls\<close>

lemmas store_defs = select_cart_def insert_order_def insert_orderitems_def delete_cart_def
  insert_cart_def call_store_def Let_def respond_def internal_error_def

lemma cart_of_trace [simp]: "cart_of uid (s\<lparr>trace := tr\<rparr>) = cart_of uid s"
  by (simp add: cart_of_def)

lemma item_triple_to_order_item: "item_triple (to_order_item oid c) = cart_triple c"
  by (simp add: item_triple_def to_order_item_def cart_triple_def)

lemma items_of_fresh: "db_ok s \<Longrightarrow> items_of (next_order_id s) s = []"
  by (auto simp: db_ok_def items_of_def filter_empty_conv)

lemma scenario_ok: "db_ok scenario"
  by (simp add: db_ok_def scenario_def)

section \<open>Placing an order from the cart\<close>

text \<open>The request succeeds exactly when the user id is truthy, the cart read finds a line and none of the four store calls fails.\<close>

lemma place_order_201_iff:
  "status (fst (place_order flt now req s)) = 201 \<longleftrightarrow>
     truthy (req_user_id req) \<and> cart_of (req_user_id req) s \<noteq> [] \<and>
     flt (length (trace s)) = NoFault \<and> flt (Suc (length (trace s))) = NoFault \<and>
     flt (Suc (Suc (length (trace s)))) = NoFault \<and> flt (Suc (Suc (Suc (length (trace s))))) = NoFault"
  by (simp add: place_order_def store_defs split: fault.splits)

lemma place_order_success:
  assumes "status (fst (place_order flt now req s)) = 201"
  shows "orders (snd (place_order flt now req s)) =
           orders s @ [\<lparr>order_id = next_order_id s, order_user_id = req_user_id req,
                         order_status = ''Pending'', created_at = now\<rparr>]"
    and "orderitems (snd (place_order flt now req s)) =
           orderitems s @ map (to_order_item (next_order_id s)) (cart_of (req_user_id req) s)"
    and "cart (snd (place_order flt now req s)) =
           filter (\<lambda>r. cart_user_id r \<noteq> req_user_id req) (cart s)"
    and "trace (snd (place_order flt now req s)) =
           trace s @ [Select ''cart'', Insert ''orders'', Insert ''orderitems'', Delete ''cart'']"
    and "next_order_id (snd (place_order flt now req s)) = Suc (next_order_id s)"
    and "json (fst (place_order flt now req s)) =
           OrderPlaced ''Order placed successfully!''
             \<lparr>order_id = next_order_id s, order_user_id = req_user_id req,
               order_status = ''Pending'', created_at = now\<rparr>
             (map (to_order_item (next_order_id s)) (cart_of (req_user_id req) s))"
  using assms unfolding place_order_201_iff
  by (simp_all add: place_order_def store_defs cart_of_def)

lemma scenario_placed: "status (fst (place_order no_faults ''t1'' u1 scenario)) = 201"
  by (simp add: place_order_201_iff no_faults_def u1_def scenario_def cart_of_def)

text \<open>
  C1. In a store whose order sequence is ahead of its rows, a successful
  \<open>POST /api/cart/place-order\<close> (status 201) appends exactly one order row, for the
  requesting user and with an id no earlier order has, and appends exactly N order items, N
  being the number of the user's cart lines at the cart read (N is at least 1); these N items
  are exactly the items that reference the new order, and the multiset of their
  (product_id, size_id, quantity) triples is that of the cart lines.
\<close>

theorem place_order_one_order_n_items:
  assumes ok: "status (fst (place_order flt now req s)) = 201"
    and inv: "db_ok s"
  shows "\<exists>ord new.
           orders (snd (place_order flt now req s)) = orders s @ [ord] \<and>
           order_user_id ord = req_user_id req \<and>
           order_id ord \<notin> order_id ` set (orders s) \<and>
           orderitems (snd (place_order flt now req s)) = orderitems s @ new \<and>
           1 \<le> length new \<and>
           length new = length (cart_of (req_user_id req) s) \<and>
           items_of (order_id ord) (snd (place_order flt now req s)) = new \<and>
           mset (map item_triple new) = mset (map cart_triple (cart_of (req_user_id req) s))"
proof -
  let ?lines = "cart_of (req_user_id req) s"
  let ?ord = "\<lparr>order_id = next_order_id s, order_user_id = req_user_id req,
                order_status = ''Pending'', created_at = now\<rparr>"
  let ?new = "map (to_order_item (next_order_id s)) ?lines"
  let ?s' = "snd (place_order flt now req s)"
  have nonempty: "?lines \<noteq> []"
    using ok by (simp add: place_order_201_iff)
  have fresh: "order_id ?ord \<notin> order_id ` set (orders s)"
    using inv by (auto simp: db_ok_def)
  have old: "items_of (next_order_id s) s = []"
    using inv by (rule items_of_fresh)
  have refs: "filter (\<lambda>i. item_order_id i = next_order_id s) ?new = ?new"
    by (simp add: to_order_item_def filter_map o_def)
  have mine: "items_of (order_id ?ord) ?s' = ?new"
    using old refs by (simp add: items_of_def place_order_success(2)[OF ok])
  have triples: "mset (map item_triple ?new) = mset (map cart_triple ?lines)"
    by (simp add: item_triple_to_order_item o_def)
  have o: "orders ?s' = orders s @ [?ord]"
    by (rule place_order_success(1)[OF ok])
  have i: "orderitems ?s' = orderitems s @ ?new"
    by (rule place_order_success(2)[OF ok])
  have n: "1 \<le> length ?new"
    using nonempty by (cases ?lines) simp_all
  have u: "order_user_id ?ord = req_user_id req" and l: "length ?new = length ?lines"
    by simp_all
  show ?thesis
    using o u fresh i n l mine triples by (intro exI[of _ ?ord] exI[of _ ?new] conjI)
qed

theorem place_order_one_order_n_items_witness:
  "status (fst (place_order no_faults ''t1'' u1 scenario)) = 201 \<and> db_ok scenario \<and>
   length (cart_of (req_user_id u1) scenario) = 2 \<and>
   (\<exists>ord new.
      orders (snd (place_order no_faults ''t1'' u1 scenario)) = orders scenario @ [ord] \<and>
      order_user_id ord = req_user_id u1 \<and>
      order_id ord \<notin> order_id ` set (orders scenario) \<and>
      orderitems (snd (place_order no_faults ''t1'' u1 scenario)) = orderitems scenario @ new \<and>
      1 \<le> length new \<and>
      length new = length (cart_of (req_user_id u1) scenario) \<and>
      items_of (order_id ord) (snd (place_order no_faults ''t1'' u1 scenario)) = new \<and>
      mset (map item_triple new) = mset (map cart_triple (cart_of (req_user_id u1) scenario)))"
proof -
  have two: "length (cart_of (req_user_id u1) scenario) = 2"
    by (simp add: cart_of_def u1_def scenario_def)
  show ?thesis
    using place_order_one_order_n_items[OF scenario_placed scenario_ok] scenario_placed
      scenario_ok two
    by blast
qed

lemma scenario_u1_lines: "cart_of (req_user_id u1) scenario \<noteq> []"
  by (simp add: cart_of_def u1_def scenario_def)

text \<open>
  C2. When the cart read and the order insert succeed and the batch insert into orderitems
  fails (it answers with an error, or throws), the caller gets an error response (500), the
  new order row is in the orders table with no order item referencing it, orderitems and the
  cart are unchanged, and the orderitems insert is the last store call of the request: no
  call deletes the order again.
\<close>

theorem place_order_items_insert_fails_orphan:
  assumes user: "truthy (req_user_id req)"
    and read: "flt (length (trace s)) = NoFault" and lines: "cart_of (req_user_id req) s \<noteq> []"
    and created: "flt (Suc (length (trace s))) = NoFault"
    and fails: "flt (Suc (Suc (length (trace s)))) \<noteq> NoFault"
    and inv: "db_ok s"
  shows "status (fst (place_order flt now req s)) = 500 \<and>
         (\<exists>msg. json (fst (place_order flt now req s)) = ErrorBody msg) \<and>
         (\<exists>ord. orders (snd (place_order flt now req s)) = orders s @ [ord] \<and>
                order_user_id ord = req_user_id req \<and>
                items_of (order_id ord) (snd (place_order flt now req s)) = []) \<and>
         orderitems (snd (place_order flt now req s)) = orderitems s \<and>
         cart (snd (place_order flt now req s)) = cart s \<and>
         trace (snd (place_order flt now req s)) =
           trace s @ [Select ''cart'', Insert ''orders'', Insert ''orderitems'']"
proof -
  have old: "filter (\<lambda>i. item_order_id i = next_order_id s) (orderitems s) = []"
    using items_of_fresh[OF inv] by (simp add: items_of_def)
  show ?thesis
    using user read lines created fails old
    by (cases "flt (Suc (Suc (length (trace s))))")
       (simp_all add: place_order_def store_defs items_of_def)
qed

theorem place_order_items_insert_fails_orphan_witness:
  "truthy (req_user_id u1) \<and> error_at 2 (length (trace scenario)) = NoFault \<and>
   cart_of (req_user_id u1) scenario \<noteq> [] \<and>
   error_at 2 (Suc (length (trace scenario))) = NoFault \<and>
   error_at 2 (Suc (Suc (length (trace scenario)))) \<noteq> NoFault \<and> db_ok scenario \<and>
   status (fst (place_order (error_at 2) ''t1'' u1 scenario)) = 500 \<and>
   length (orders (snd (place_order (error_at 2) ''t1'' u1 scenario))) = 2 \<and>
   orderitems (snd (place_order (error_at 2) ''t1'' u1 scenario)) = orderitems scenario \<and>
   cart (snd (place_order (error_at 2) ''t1'' u1 scenario)) = cart scenario"
proof -
  have h1: "truthy (req_user_id u1)"
    by (simp add: u1_def)
  have h2: "error_at 2 (length (trace scenario)) = NoFault"
    by (simp add: error_at_def scenario_def)
  have h3: "error_at 2 (Suc (length (trace scenario))) = NoFault"
    by (simp add: error_at_def scenario_def)
  have h4: "error_at 2 (Suc (Suc (length (trace scenario)))) \<noteq> NoFault"
    by (simp add: error_at_def scenario_def)
  have n: "length (orders scenario) = 1"
    by (simp add: scenario_def)
  from place_order_items_insert_fails_orphan[OF h1 h2 scenario_u1_lines h3 h4 scenario_ok, of "''t1''"]
  show ?thesis using h1 h2 h3 h4 scenario_u1_lines scenario_ok n by auto
qed

text \<open>
  C3. When the user id is present and the cart read answers with no cart lines, the response
  is 400 and the cart read is the only store call made: the orders, orderitems and cart tables
  are as before (the state differs from the state before only in the recorded read).
\<close>

theorem place_order_empty_cart_no_writes:
  assumes user: "truthy (req_user_id req)"
    and read: "fst (select_cart flt (req_user_id req) s) = Data []"
  shows "status (fst (place_order flt now req s)) = 400 \<and>
         snd (place_order flt now req s) = s\<lparr>trace := trace s @ [Select ''cart'']\<rparr> \<and>
         orders (snd (place_order flt now req s)) = orders s \<and>
         orderitems (snd (place_order flt now req s)) = orderitems s \<and>
         cart (snd (place_order flt now req s)) = cart s"
  using assms
  by (cases "flt (length (trace s))") (simp_all add: place_order_def store_defs)

theorem place_order_empty_cart_no_writes_witness:
  "truthy (req_user_id u3) \<and> fst (select_cart no_faults (req_user_id u3) scenario) = Data [] \<and>
   status (fst (place_order no_faults ''t1'' u3 scenario)) = 400 \<and>
   orders (snd (place_order no_faults ''t1'' u3 scenario)) = orders scenario \<and>
   orderitems (snd (place_order no_faults ''t1'' u3 scenario)) = orderitems scenario \<and>
   cart (snd (place_order no_faults ''t1'' u3 scenario)) = cart scenario \<and>
   trace (snd (place_order no_faults ''t1'' u3 scenario)) = [Select ''cart'']"
proof -
  have h1: "truthy (req_user_id u3)"
    by (simp add: u3_def)
  have h2: "fst (select_cart no_faults (req_user_id u3) scenario) = Data []"
    by (simp add: store_defs no_faults_def u3_def scenario_def cart_of_def)
  have t: "trace scenario = []"
    by (simp add: scenario_def)
  from place_order_empty_cart_no_writes[OF h1 h2, of "''t1''"] show ?thesis
    using h1 h2 t by simp
qed

text \<open>
  C4. After a successful \<open>POST /api/cart/place-order\<close> the user has no cart line: the cart
  table is the old one without that user's lines, and the delete on the cart is the last store
  call of the request.
\<close>

theorem place_order_clears_cart:
  assumes ok: "status (fst (place_order flt now req s)) = 201"
  shows "cart_of (req_user_id req) (snd (place_order flt now req s)) = [] \<and>
         cart (snd (place_order flt now req s)) =
           filter (\<lambda>r. cart_user_id r \<noteq> req_user_id req) (cart s) \<and>
         last (trace (snd (place_order flt now req s))) = Delete ''cart''"
  by (simp add: place_order_success(3,4)[OF ok] cart_of_def filter_empty_conv)

theorem place_order_clears_cart_witness:
  "status (fst (place_order no_faults ''t1'' u1 scenario)) = 201 \<and>
   cart_of (req_user_id u1) scenario \<noteq> [] \<and>
   cart_of (req_user_id u1) (snd (place_order no_faults ''t1'' u1 scenario)) = [] \<and>
   length (cart (snd (place_order no_faults ''t1'' u1 scenario))) = 1"
proof -
  have one: "length (filter (\<lambda>r. cart_user_id r \<noteq> req_user_id u1) (cart scenario)) = 1"
    by (simp add: u1_def scenario_def)
  from place_order_clears_cart[OF scenario_placed] show ?thesis
    using scenario_placed scenario_u1_lines one by simp
qed

lemma place_order_400_iff:
  "status (fst (place_order flt now req s)) = 400 \<longleftrightarrow>
     \<not> truthy (req_user_id req) \<or> flt (length (trace s)) = ReturnsError \<or>
     (flt (length (trace s)) = NoFault \<and> cart_of (req_user_id req) s = [])"
  by (simp add: place_order_def store_defs split: fault.splits)

lemma place_order_500_iff:
  "status (fst (place_order flt now req s)) = 500 \<longleftrightarrow>
      truthy (req_user_id req) \<and>
      (flt (length (trace s)) = Throws \<or>
       (flt (length (trace s)) = NoFault \<and> cart_of (req_user_id req) s \<noteq> [] \<and>
        (flt (Suc (length (trace s))) \<noteq> NoFault \<or> flt (Suc (Suc (length (trace s)))) \<noteq> NoFault \<or>
         flt (Suc (Suc (Suc (length (trace s))))) \<noteq> NoFault)))"
  by (simp add: place_order_def store_defs split: fault.splits)

text \<open>
  C5, as stated, fails: when the initial cart read answers with an error, the handler takes
  the branch of the empty cart and responds 400, not 500.
\<close>

theorem place_order_cart_read_error_counterexample:
  "error_at 0 (length (trace scenario)) = ReturnsError \<and>
   status (fst (place_order (error_at 0) ''t1'' u1 scenario)) = 400 \<and>
   status (fst (place_order (error_at 0) ''t1'' u1 scenario)) \<noteq> 500"
proof -
  have fault: "error_at 0 (length (trace scenario)) = ReturnsError"
    by (simp add: error_at_def scenario_def)
  then have "status (fst (place_order (error_at 0) ''t1'' u1 scenario)) = 400"
    by (simp add: place_order_400_iff)
  with fault show ?thesis
    by simp
qed

text \<open>
  C5, amended. \<open>POST /api/cart/place-order\<close> responds 201, with the created order and the
  inserted order items, exactly when the user id is present, the cart read finds a line and no
  store call fails; 400 exactly when the user id is missing, the cart is empty, or the initial
  cart read answers with an error; and 500 exactly when the cart read throws, or the order
  insert, the orderitems insert or the cart clear fails (answers with an error or throws).
\<close>

theorem place_order_status_codes:
  "(status (fst (place_order flt now req s)) = 201 \<longleftrightarrow>
      truthy (req_user_id req) \<and> cart_of (req_user_id req) s \<noteq> [] \<and>
      flt (length (trace s)) = NoFault \<and> flt (Suc (length (trace s))) = NoFault \<and>
      flt (Suc (Suc (length (trace s)))) = NoFault \<and>
      flt (Suc (Suc (Suc (length (trace s))))) = NoFault) \<and>
   (status (fst (place_order flt now req s)) = 201 \<longrightarrow>
      (\<exists>ord new. json (fst (place_order flt now req s)) =
                    OrderPlaced ''Order placed successfully!'' ord new \<and>
                  orders (snd (place_order flt now req s)) = orders s @ [ord] \<and>
                  orderitems (snd (place_order flt now req s)) = orderitems s @ new)) \<and>
   (status (fst (place_order flt now req s)) = 400 \<longleftrightarrow>
      \<not> truthy (req_user_id req) \<or> flt (length (trace s)) = ReturnsError \<or>
      (flt (length (trace s)) = NoFault \<and> cart_of (req_user_id req) s = [])) \<and>
   (status (fst (place_order flt now req s)) = 500 \<longleftrightarrow>
      truthy (req_user_id req) \<and>
      (flt (length (trace s)) = Throws \<or>
       (flt (length (trace s)) = NoFault \<and> cart_of (req_user_id req) s \<noteq> [] \<and>
        (flt (Suc (length (trace s))) \<noteq> NoFault \<or> flt (Suc (Suc (length (trace s)))) \<noteq> NoFault \<or>
         flt (Suc (Suc (Suc (length (trace s))))) \<noteq> NoFault))))"
proof (intro conjI impI)
  assume ok: "status (fst (place_order flt now req s)) = 201"
  show "\<exists>ord new. json (fst (place_order flt now req s)) =
                    OrderPlaced ''Order placed successfully!'' ord new \<and>
                  orders (snd (place_order flt now req s)) = orders s @ [ord] \<and>
                  orderitems (snd (place_order flt now req s)) = orderitems s @ new"
    using place_order_success(6)[OF ok] place_order_success(1)[OF ok] place_order_success(2)[OF ok]
    by blast
qed (rule place_order_201_iff place_order_400_iff place_order_500_iff)+

theorem place_order_status_codes_witness:
  "status (fst (place_order no_faults ''t1'' u1 scenario)) = 201 \<and>
   status (fst (place_order no_faults ''t1'' u3 scenario)) = 400 \<and>
   status (fst (place_order (error_at 0) ''t1'' u1 scenario)) = 400 \<and>
   status (fst (place_order (throw_at 0) ''t1'' u1 scenario)) = 500 \<and>
   status (fst (place_order (error_at 1) ''t1'' u1 scenario)) = 500 \<and>
   status (fst (place_order (error_at 2) ''t1'' u1 scenario)) = 500 \<and>
   status (fst (place_order (error_at 3) ''t1'' u1 scenario)) = 500 \<and>
   (\<exists>ord new. json (fst (place_order no_faults ''t1'' u1 scenario)) =
                 OrderPlaced ''Order placed successfully!'' ord new \<and>
               orders (snd (place_order no_faults ''t1'' u1 scenario)) = orders scenario @ [ord] \<and>
               orderitems (snd (place_order no_faults ''t1'' u1 scenario)) = orderitems scenario @ new)"
proof -
  have t: "trace scenario = []"
    by (simp add: scenario_def)
  have l3: "cart_of (req_user_id u3) scenario = []"
    by (simp add: cart_of_def u3_def scenario_def)
  have u: "truthy (req_user_id u1)" "truthy (req_user_id u3)"
    by (simp_all add: u1_def u3_def)
  note l1 = scenario_u1_lines
  have a: "status (fst (place_order no_faults ''t1'' u1 scenario)) = 201"
    using place_order_status_codes[of no_faults "''t1''" u1 scenario] t l1 u
    by (simp add: no_faults_def)
  have b: "status (fst (place_order no_faults ''t1'' u3 scenario)) = 400"
    using place_order_status_codes[of no_faults "''t1''" u3 scenario] t l3 u
    by (simp add: no_faults_def)
  have c: "status (fst (place_order (error_at 0) ''t1'' u1 scenario)) = 400"
    using place_order_status_codes[of "error_at 0" "''t1''" u1 scenario] t l1 u
    by (simp add: error_at_def)
  have d: "status (fst (place_order (throw_at 0) ''t1'' u1 scenario)) = 500"
    using place_order_status_codes[of "throw_at 0" "''t1''" u1 scenario] t l1 u
    by (simp add: throw_at_def)
  have e: "status (fst (place_order (error_at 1) ''t1'' u1 scenario)) = 500"
    using place_order_status_codes[of "error_at 1" "''t1''" u1 scenario] t l1 u
    by (simp add: error_at_def)
  have f: "status (fst (place_order (error_at 2) ''t1'' u1 scenario)) = 500"
    using place_order_status_codes[of "error_at 2" "''t1''" u1 scenario] t l1 u
    by (simp add: error_at_def)
  have g: "status (fst (place_order (error_at 3) ''t1'' u1 scenario)) = 500"
    using place_order_status_codes[of "error_at 3" "''t1''" u1 scenario] t l1 u
    by (simp add: error_at_def)
  have h: "\<exists>ord new. json (fst (place_order no_faults ''t1'' u1 scenario)) =
                 OrderPlaced ''Order placed successfully!'' ord new \<and>
               orders (snd (place_order no_faults ''t1'' u1 scenario)) = orders scenario @ [ord] \<and>
               orderitems (snd (place_order no_faults ''t1'' u1 scenario)) = orderitems scenario @ new"
    using place_order_status_codes[of no_faults "''t1''" u1 scenario] a by blast
  show ?thesis using a b c d e f g h by (intro conjI)
qed

section \<open>Creating an order from an item list\<close>

lemma single_result:
  assumes "single flt c rows s = (r, s')"
  shows "s' = s\<lparr>trace := trace s @ [c]\<rparr>"
    and "\<And>x. r = Data x \<Longrightarrow> rows (s\<lparr>trace := trace s @ [c]\<rparr>) = [x]"
  using assms
  by (auto simp: single_def call_store_def Let_def split: fault.splits list.splits)

lemma single_unique:
  assumes "flt (length (trace s)) = NoFault" and "rows (s\<lparr>trace := trace s @ [c]\<rparr>) = [x]"
  shows "single flt c rows s = (Data x, s\<lparr>trace := trace s @ [c]\<rparr>)"
  using assms by (simp add: single_def call_store_def Let_def)


lemma select_product_result:
  assumes "select_product flt pid s = (r, s')"
  shows "s' = s\<lparr>trace := trace s @ [Select ''products'']\<rparr>"
    and "\<And>p. r = Data p \<Longrightarrow> product_exists pid s"
proof -
  from assms have sg: "single flt (Select ''products'')
      (\<lambda>t. filter (\<lambda>r. product_id r = pid) (products t)) s = (r, s')"
    by (simp add: select_product_def)
  show "s' = s\<lparr>trace := trace s @ [Select ''products'']\<rparr>"
    by (rule single_result(1)[OF sg])
  fix p assume "r = Data p"
  from single_result(2)[OF sg this]
  have "p \<in> set (filter (\<lambda>r. product_id r = pid) (products s))"
    by simp
  then show "product_exists pid s"
    by (auto simp: product_exists_def)
qed

lemma check_size_result:
  assumes "check_size flt it s = (r, s')"
  shows "s' = s \<or> s' = s\<lparr>trace := trace s @ [Select ''product_sizes'']\<rparr>"
    and "r = None \<Longrightarrow> truthy (size it) \<Longrightarrow> size_offered (product it) (size it) s"
proof -
  obtain d t where sel: "select_product_size flt (product it) (size it) s = (d, t)"
    by (cases "select_product_size flt (product it) (size it) s")
  then have sg: "single flt (Select ''product_sizes'')
       (\<lambda>t. map snd (filter (\<lambda>r. fst r = product it \<and> snd r = size it) (product_sizes t))) s = (d, t)"
    by (simp add: select_product_size_def)
  note t = single_result(1)[OF sg]
  show "s' = s \<or> s' = s\<lparr>trace := trace s @ [Select ''product_sizes'']\<rparr>"
    using assms sel t by (auto simp: check_size_def split: if_splits reply.splits)
  assume none: "r = None" and sz: "truthy (size it)"
  with assms sel obtain v where "d = Data v"
    by (auto simp: check_size_def split: reply.splits)
  from single_result(2)[OF sg this]
  have "filter (\<lambda>r. fst r = product it \<and> snd r = size it) (product_sizes s) \<noteq> []"
    by auto
  then obtain x where x: "x \<in> set (product_sizes s)" and fx: "fst x = product it" "snd x = size it"
    by (auto simp: filter_empty_conv)
  have "x = (product it, size it)"
    using fx by (cases x) simp
  with x have "(product it, size it) \<in> set (product_sizes s)"
    by simp
  then show "size_offered (product it) (size it) s"
    by (simp add: size_offered_def)
qed

lemma lookups_only_refl: "lookups_only s s"
  unfolding lookups_only_def by (rule exI[of _ "[]"]) simp

lemma lookups_only_step:
  assumes "c \<in> {Select ''products'', Select ''product_sizes''}"
    and "lookups_only (s\<lparr>trace := trace s @ [c]\<rparr>) s'"
  shows "lookups_only s s'"
proof -
  from assms(2) obtain sel where s': "s' = s\<lparr>trace := trace s @ [c] @ sel\<rparr>"
    and sel: "set sel \<subseteq> {Select ''products'', Select ''product_sizes''}"
    unfolding lookups_only_def by auto
  show ?thesis
    unfolding lookups_only_def using s' sel assms(1) by (intro exI[of _ "c # sel"]) auto
qed

lemma lookups_only_trans: "lookups_only s t \<Longrightarrow> lookups_only t u \<Longrightarrow> lookups_only s u"
proof -
  assume "lookups_only s t" "lookups_only t u"
  then obtain a b where a: "t = s\<lparr>trace := trace s @ a\<rparr>"
      "set a \<subseteq> {Select ''products'', Select ''product_sizes''}"
    and b: "u = t\<lparr>trace := trace t @ b\<rparr>"
      "set b \<subseteq> {Select ''products'', Select ''product_sizes''}"
    unfolding lookups_only_def by blast
  show ?thesis
    unfolding lookups_only_def using a b by (intro exI[of _ "a @ b"]) simp
qed

lemma lookups_only_fields:
  assumes "lookups_only s s'"
  shows "orders s' = orders s" "orderitems s' = orderitems s" "cart s' = cart s"
    "\<exists>sel. trace s' = trace s @ sel \<and> set sel \<subseteq> {Select ''products'', Select ''product_sizes''}"
  using assms by (auto simp: lookups_only_def)

lemma references_exist_trace [simp]:
  "references_exist it (s\<lparr>trace := tr\<rparr>) = references_exist it s"
  by (simp add: references_exist_def product_exists_def size_offered_def)

lemma references_exist_lookups: "lookups_only s s' \<Longrightarrow> references_exist it s' = references_exist it s"
  by (auto simp: lookups_only_def)

lemma entry_passes_lookups: "lookups_only s s' \<Longrightarrow> entry_passes eng e s' = entry_passes eng e s"
  by (simp add: entry_passes_def references_exist_lookups split: option.splits)

lemma accepted_lookups: "lookups_only s s' \<Longrightarrow> accepted eng e s' = accepted eng e s"
  by (auto simp: lookups_only_def accepted_def split: option.splits)

text \<open>What a run of the loop leaves behind, and what a finished run says about the elements.\<close>

lemma format_items_result:
  "format_items eng flt oid es acc s = (r, s') \<Longrightarrow>
     lookups_only s s' \<and>
     (\<forall>out. r = Inr out \<longrightarrow>
        out = acc @ map (formatted oid) (List.map_filter read_item es) \<and>
        (\<forall>e \<in> set es. entry_passes eng e s))"
proof (induction es arbitrary: acc s)
  case Nil
  then show ?case by (auto simp: lookups_only_refl List.map_filter_simps)
next
  case (Cons e es)
  show ?case
  proof (cases "read_item e")
    case None
    with Cons.prems show ?thesis
      by (auto simp: lookups_only_refl)
  next
    case (Some it)
    show ?thesis
    proof (cases "well_formed eng it")
      case False
      with Cons.prems Some show ?thesis
        by (auto simp: well_formed_def lookups_only_refl)
    next
      case True
      obtain p s1 where sel: "select_product flt (product it) s = (p, s1)"
        by (cases "select_product flt (product it) s")
      note s1 = select_product_result(1)[OF sel]
      have step1: "lookups_only s1 t \<Longrightarrow> lookups_only s t" for t
        using lookups_only_step[of "Select ''products''" s t] s1 by simp
      show ?thesis
      proof (cases p)
        case Thrown
        with Cons.prems Some True sel show ?thesis
          by (auto simp: well_formed_def intro!: step1 lookups_only_refl)
      next
        case Error
        with Cons.prems Some True sel show ?thesis
          by (auto simp: well_formed_def intro!: step1 lookups_only_refl)
      next
        case (Data row)
        have pe: "product_exists (product it) s"
          using select_product_result(2)[OF sel Data] .
        obtain c s2 where chk: "check_size flt it s1 = (c, s2)"
          by (cases "check_size flt it s1")
        have step2: "lookups_only s2 t \<Longrightarrow> lookups_only s1 t" for t
          using check_size_result(1)[OF chk] lookups_only_step[of "Select ''product_sizes''" s1 t]
          by auto
        have s2: "lookups_only s s2"
          by (intro step1 step2 lookups_only_refl)
        show ?thesis
        proof (cases c)
          case (Some early)
          with Cons.prems \<open>read_item e = Some it\<close> True sel Data chk s2 show ?thesis
            by (auto simp: well_formed_def)
        next
          case None
          have so: "truthy (size it) \<Longrightarrow> size_offered (product it) (size it) s"
            using check_size_result(2)[OF chk None] s1 by (simp add: size_offered_def)
          have re: "entry_passes eng e s"
            using pe so True \<open>read_item e = Some it\<close>
            by (simp add: entry_passes_def references_exist_def)
          from Cons.prems \<open>read_item e = Some it\<close> True sel Data chk None
          have rest: "format_items eng flt oid es (acc @ [formatted oid it]) s2 = (r, s')"
            by (simp add: well_formed_def)
          from Cons.IH[OF rest] have lo: "lookups_only s2 s'"
            and out: "\<And>out. r = Inr out \<Longrightarrow>
                        out = (acc @ [formatted oid it]) @
                                map (formatted oid) (List.map_filter read_item es) \<and>
                        (\<forall>x \<in> set es. entry_passes eng x s2)"
            by blast+
          have "lookups_only s s'"
            using lo by (intro step1 step2)
          moreover have "out = acc @ map (formatted oid) (List.map_filter read_item (e # es)) \<and>
               (\<forall>x \<in> set (e # es). entry_passes eng x s)" if "r = Inr out" for out
            using out[OF that] re entry_passes_lookups[OF s2] \<open>read_item e = Some it\<close>
            by (simp add: List.map_filter_simps)
          ultimately show ?thesis by blast
        qed
      qed
    qed
  qed
qed

lemma format_items_early:
  "format_items eng flt oid es acc s = (Inl early, s') \<Longrightarrow>
     json early = ErrorBody ''Each item must have a valid product_id and quantity.'' \<Longrightarrow>
     status early = 400"
proof (induction es arbitrary: acc s)
  case Nil
  then show ?case by simp
next
  case (Cons e es)
  then show ?case
    by (auto simp: check_size_def respond_def internal_error_def
             split: if_splits prod.splits reply.splits option.splits)
qed


text \<open>One turn of the loop on an accepted element, when no call fails.\<close>

lemma format_items_accepted_step:
  assumes nf: "\<forall>k. flt k = NoFault" and acc: "accepted eng e s"
  shows "\<exists>s1 out'. lookups_only s s1 \<and>
           format_items eng flt oid (e # rest) out s = format_items eng flt oid rest out' s1"
proof -
  let ?s1 = "s\<lparr>trace := trace s @ [Select ''products'']\<rparr>"
  from acc obtain it where rd: "read_item e = Some it"
    by (auto simp: accepted_def split: option.splits)
  from acc rd have wf: "well_formed eng it" by (simp add: accepted_def)
  from acc rd obtain p where p: "filter (\<lambda>r. product_id r = product it) (products s) = [p]"
    by (auto simp: accepted_def length_Suc_conv)
  have sel: "select_product flt (product it) s = (Data p, ?s1)"
    unfolding select_product_def using nf p by (intro single_unique) simp_all
  have l1: "lookups_only s ?s1"
    by (rule lookups_only_step[OF _ lookups_only_refl]) simp
  show ?thesis
  proof (cases "truthy (size it)")
    case False
    then have "check_size flt it ?s1 = (None, ?s1)"
      by (simp add: check_size_def)
    with wf sel rd have "format_items eng flt oid (e # rest) out s =
           format_items eng flt oid rest (out @ [formatted oid it]) ?s1"
      by (simp add: well_formed_def)
    with l1 show ?thesis by blast
  next
    case True
    let ?s2 = "?s1\<lparr>trace := trace ?s1 @ [Select ''product_sizes'']\<rparr>"
    from acc rd True obtain v where
      v: "filter (\<lambda>r. fst r = product it \<and> snd r = size it) (product_sizes s) = [v]"
      by (auto simp: accepted_def length_Suc_conv)
    have "select_product_size flt (product it) (size it) ?s1 = (Data (snd v), ?s2)"
      unfolding select_product_size_def using nf v by (intro single_unique) simp_all
    with True have "check_size flt it ?s1 = (None, ?s2)"
      by (simp add: check_size_def)
    with wf sel rd have eq: "format_items eng flt oid (e # rest) out s =
           format_items eng flt oid rest (out @ [formatted oid it]) ?s2"
      by (simp add: well_formed_def)
    have "lookups_only ?s1 ?s2"
      by (rule lookups_only_step[OF _ lookups_only_refl]) simp
    with l1 have "lookups_only s ?s2"
      by (rule lookups_only_trans)
    with eq show ?thesis by blast
  qed
qed

lemma format_items_accepted_prefix:
  assumes nf: "\<forall>k. flt k = NoFault"
  shows "\<forall>e \<in> set pre. accepted eng e s \<Longrightarrow>
         \<exists>s1 out'. lookups_only s s1 \<and>
           format_items eng flt oid (pre @ rest) out s = format_items eng flt oid rest out' s1"
proof (induction pre arbitrary: out s)
  case Nil
  show ?case
    using lookups_only_refl[of s] by (intro exI[of _ s] exI[of _ out]) simp
next
  case (Cons e pre)
  from Cons.prems have "accepted eng e s" by simp
  from format_items_accepted_step[OF nf this, of oid "pre @ rest" out]
  obtain s1 out1 where s1: "lookups_only s s1"
    and eq1: "format_items eng flt oid (e # pre @ rest) out s =
           format_items eng flt oid (pre @ rest) out1 s1"
    by blast
  from Cons.prems have "\<forall>x \<in> set pre. accepted eng x s1"
    using accepted_lookups[OF s1] by simp
  from Cons.IH[OF this, of out1]
  obtain s2 out2 where s2: "lookups_only s1 s2"
    and eq2: "format_items eng flt oid (pre @ rest) out1 s1 =
           format_items eng flt oid rest out2 s2"
    by blast
  have "lookups_only s s2"
    using s1 s2 by (rule lookups_only_trans)
  moreover have "format_items eng flt oid ((e # pre) @ rest) out s =
           format_items eng flt oid rest out2 s2"
    using eq1 eq2 by simp
  ultimately show ?case by blast
qed

lemma format_items_malformed:
  assumes "read_item e = Some it" and "\<not> well_formed eng it"
  shows "format_items eng flt oid (e # rest) out s =
           (Inl (respond 400 (ErrorBody ''Each item must have a valid product_id and quantity.'')), s)"
  using assms by (auto simp: well_formed_def)

lemma format_items_null:
  assumes "read_item e = None"
  shows "format_items eng flt oid (e # rest) out s = (Inl internal_error, s)"
  using assms by simp



lemma insert_order_result:
  "insert_order flt uid ''Pending'' ts s =
     (case flt (length (trace s)) of
        NoFault \<Rightarrow> (Data (new_order uid ts s), order_inserted uid ts s)
      | ReturnsError \<Rightarrow> (Error, s\<lparr>trace := trace s @ [Insert ''orders'']\<rparr>)
      | Throws \<Rightarrow> (Thrown, s\<lparr>trace := trace s @ [Insert ''orders'']\<rparr>))"
  by (simp add: insert_order_def call_store_def Let_def new_order_def order_inserted_def
           split: fault.splits)

lemma insert_orderitems_result:
  "insert_orderitems flt rows s =
     (case flt (length (trace s)) of
        NoFault \<Rightarrow> (Data rows, s\<lparr>trace := trace s @ [Insert ''orderitems''],
                                  orderitems := orderitems s @ rows\<rparr>)
      | ReturnsError \<Rightarrow> (Error, s\<lparr>trace := trace s @ [Insert ''orderitems'']\<rparr>)
      | Throws \<Rightarrow> (Thrown, s\<lparr>trace := trace s @ [Insert ''orderitems'']\<rparr>))"
  by (simp add: insert_orderitems_def call_store_def Let_def split: fault.splits)

lemma order_id_new_order [simp]: "order_id (new_order uid ts s) = next_order_id s"
  by (simp add: new_order_def)

lemma accepted_order_inserted: "accepted eng e (order_inserted uid now s) = accepted eng e s"
  by (simp add: accepted_def order_inserted_def split: option.splits)

lemma calls_made_same [simp]: "calls_made s s = []"
  by (simp add: calls_made_def)

lemma calls_made_trace [simp]: "calls_made s (s\<lparr>trace := trace s @ cs\<rparr>) = cs"
  by (simp add: calls_made_def)

lemma calls_made_order_inserted [simp]:
  "calls_made s (order_inserted uid now s) = [Insert ''orders'']"
  by (simp add: calls_made_def order_inserted_def)

lemma after_order_inserted:
  assumes "lookups_only (order_inserted uid now s) s2"
  shows "orders s2 = orders s @ [new_order uid now s]" "orderitems s2 = orderitems s"
    "\<exists>sel. trace s2 = trace s @ Insert ''orders'' # sel \<and>
           set sel \<subseteq> {Select ''products'', Select ''product_sizes''}"
  using assms by (auto simp: lookups_only_def order_inserted_def)

lemma iterate_nonempty:
  assumes "iterate f = Some es" and "es \<noteq> []"
  shows "\<not> items_falsy f" and "\<not> length_is_zero f"
  using assms by (cases f; auto)+

text \<open>What create_order does once the first check has passed and the order row is in.\<close>

lemma create_order_after_insert:
  assumes user: "truthy (ord_user_id req)"
    and items: "\<not> items_falsy (ord_items req)" "\<not> length_is_zero (ord_items req)"
    and ins: "flt (length (trace s)) = NoFault"
  shows "create_order eng flt now req s =
           (case iterate (ord_items req) of
              None \<Rightarrow> (internal_error, order_inserted (ord_user_id req) now s)
            | Some entries \<Rightarrow>
                (case format_items eng flt (next_order_id s) entries []
                        (order_inserted (ord_user_id req) now s) of
                   (Inl early, s2) \<Rightarrow> (early, s2)
                 | (Inr formattedItems, s2) \<Rightarrow>
                     (case insert_orderitems flt formattedItems s2 of
                        (Thrown, s3) \<Rightarrow> (internal_error, s3)
                      | (Error, s3) \<Rightarrow>
                          (respond 500 (ErrorBody ''Failed to add items to the order.''), s3)
                      | (Data itemsData, s3) \<Rightarrow>
                          (respond 201
                             (OrderCreated ''Order created successfully!''
                                (new_order (ord_user_id req) now s) itemsData), s3))))"
  using user items ins
  by (simp add: create_order_def insert_order_result split: option.splits)

lemma create_order_rejected:
  assumes "\<not> truthy (ord_user_id req) \<or> items_falsy (ord_items req) \<or> length_is_zero (ord_items req)"
  shows "create_order eng flt now req s =
           (respond 400 (ErrorBody ''User ID and at least one item are required to create an order.''), s)"
  using assms by (auto simp: create_order_def)

lemma create_order_insert_failed:
  assumes "truthy (ord_user_id req)" "\<not> items_falsy (ord_items req)"
    "\<not> length_is_zero (ord_items req)"
    and "flt (length (trace s)) \<noteq> NoFault"
  shows "snd (create_order eng flt now req s) = s\<lparr>trace := trace s @ [Insert ''orders'']\<rparr>"
    and "status (fst (create_order eng flt now req s)) = 500"
    and "json (fst (create_order eng flt now req s)) = ErrorBody ''Internal server error.'' \<or>
         json (fst (create_order eng flt now req s)) = ErrorBody ''Failed to create the order.''"
  using assms
  by (auto simp: create_order_def insert_order_result internal_error_def respond_def
           split: fault.splits)

text \<open>The six ways a request to create_order ends.\<close>

lemma create_order_cases:
  obtains
    (rejected)
      "\<not> truthy (ord_user_id req) \<or> items_falsy (ord_items req) \<or> length_is_zero (ord_items req)"
      "create_order eng flt now req s =
         (respond 400 (ErrorBody ''User ID and at least one item are required to create an order.''), s)"
  | (no_order) "status (fst (create_order eng flt now req s)) = 500"
      "json (fst (create_order eng flt now req s)) = ErrorBody ''Internal server error.'' \<or>
       json (fst (create_order eng flt now req s)) = ErrorBody ''Failed to create the order.''"
      "snd (create_order eng flt now req s) = s\<lparr>trace := trace s @ [Insert ''orders'']\<rparr>"
  | (not_iterable) "iterate (ord_items req) = None"
      "create_order eng flt now req s = (internal_error, order_inserted (ord_user_id req) now s)"
  | (item_refused) entries early s2 where "iterate (ord_items req) = Some entries"
      "format_items eng flt (next_order_id s) entries [] (order_inserted (ord_user_id req) now s) =
         (Inl early, s2)"
      "create_order eng flt now req s = (early, s2)"
  | (no_items) entries out s2 where "iterate (ord_items req) = Some entries"
      "format_items eng flt (next_order_id s) entries [] (order_inserted (ord_user_id req) now s) =
         (Inr out, s2)"
      "\<forall>e \<in> set entries. entry_passes eng e s"
      "status (fst (create_order eng flt now req s)) = 500"
      "json (fst (create_order eng flt now req s)) = ErrorBody ''Internal server error.'' \<or>
       json (fst (create_order eng flt now req s)) = ErrorBody ''Failed to add items to the order.''"
      "snd (create_order eng flt now req s) = s2\<lparr>trace := trace s2 @ [Insert ''orderitems'']\<rparr>"
  | (created) entries out s2 where "iterate (ord_items req) = Some entries"
      "format_items eng flt (next_order_id s) entries [] (order_inserted (ord_user_id req) now s) =
         (Inr out, s2)"
      "\<forall>e \<in> set entries. entry_passes eng e s"
      "out = map (formatted (next_order_id s)) (List.map_filter read_item entries)"
      "create_order eng flt now req s =
         (respond 201 (OrderCreated ''Order created successfully!''
                        (new_order (ord_user_id req) now s) out),
          s2\<lparr>trace := trace s2 @ [Insert ''orderitems''], orderitems := orderitems s2 @ out\<rparr>)"
proof (cases "\<not> truthy (ord_user_id req) \<or> items_falsy (ord_items req) \<or>
              length_is_zero (ord_items req)")
  case True
  then show ?thesis
    using rejected create_order_rejected by blast
next
  case False
  then have user: "truthy (ord_user_id req)"
    and items: "\<not> items_falsy (ord_items req)" "\<not> length_is_zero (ord_items req)"
    by auto
  show ?thesis
  proof (cases "flt (length (trace s)) = NoFault")
    case False
    from create_order_insert_failed[where flt = flt and s = s and req = req and now = now
        and eng = eng, OF user items False]
    show ?thesis
      using no_order by blast
  next
    case True
    note co = create_order_after_insert[where flt = flt and s = s and req = req and now = now
        and eng = eng, OF user items True]
    show ?thesis
    proof (cases "iterate (ord_items req)")
      case None
      with co show ?thesis
        using not_iterable by simp
    next
      case (Some entries)
      obtain r s2 where fi:
        "format_items eng flt (next_order_id s) entries []
           (order_inserted (ord_user_id req) now s) = (r, s2)"
        by (cases "format_items eng flt (next_order_id s) entries []
                     (order_inserted (ord_user_id req) now s)")
      note res = format_items_result[OF fi]
      show ?thesis
      proof (cases r)
        case (Inl early)
        with fi co Some show ?thesis
          using item_refused[of entries early s2] by simp
      next
        case (Inr out)
        with res have out: "out = map (formatted (next_order_id s)) (List.map_filter read_item entries)"
          and ok: "\<forall>e \<in> set entries. entry_passes eng e s"
          by (auto simp: order_inserted_def entry_passes_def references_exist_def
                product_exists_def size_offered_def split: option.splits)
        show ?thesis
        proof (cases "flt (length (trace s2)) = NoFault")
          case True
          with fi co Inr Some have "create_order eng flt now req s =
           (respond 201 (OrderCreated ''Order created successfully!''
                          (new_order (ord_user_id req) now s) out),
            s2\<lparr>trace := trace s2 @ [Insert ''orderitems''], orderitems := orderitems s2 @ out\<rparr>)"
            by (simp add: insert_orderitems_result)
          with fi Inr out ok Some show ?thesis
            using created[of entries out s2] by simp
        next
          case False
          with fi co Inr Some have "status (fst (create_order eng flt now req s)) = 500"
            "json (fst (create_order eng flt now req s)) = ErrorBody ''Internal server error.'' \<or>
             json (fst (create_order eng flt now req s)) =
               ErrorBody ''Failed to add items to the order.''"
            "snd (create_order eng flt now req s) = s2\<lparr>trace := trace s2 @ [Insert ''orderitems'']\<rparr>"
            by (auto simp: insert_orderitems_result internal_error_def respond_def
                     split: fault.splits)
          with fi Inr ok Some show ?thesis
            using no_items[of entries out s2] by simp
        qed
      qed
    qed
  qed
qed

lemmas run_defs = create_order_def check_size_def select_product_def select_product_size_def
  single_def store_defs formatted_def js_or_def no_faults_def scenario_def new_order_def

lemmas item_defs = bread_def cake_def ghost_def sized_bread_def zero_quantity_def
  negative_fraction_def good_order_def missing_product_order_def wrong_size_order_def
  zero_quantity_order_def late_invalid_order_def fraction_order_def

text \<open>
  Elements the loop cannot read are no validation errors for the handler: a \<open>null\<close> element
  and an \<open>items\<close> value that is not iterable throw after the order insert, and the \<open>catch\<close>
  answers 500.
\<close>

lemma null_entry_answered_500:
  "create_order nan_engine no_faults ''t1'' null_entry_order scenario =
     (internal_error, order_inserted (JStr ''u1'') ''t1'' scenario)"
  by (simp add: run_defs null_entry_order_def order_inserted_def)

lemma number_items_answered_500:
  "create_order nan_engine no_faults ''t1'' number_items_order scenario =
     (internal_error, order_inserted (JStr ''u1'') ''t1'' scenario)"
  by (simp add: run_defs number_items_order_def order_inserted_def)

text \<open>
  When no call fails and the elements before \<open>e\<close> are accepted, the loop reaches \<open>e\<close>; if
  it stops there with an early response, that is the response of the request, given after the
  order insert and the lookups, with nothing inserted into orderitems.
\<close>

lemma create_order_stops_at:
  assumes nf: "\<forall>k. flt k = NoFault" and user: "truthy (ord_user_id req)"
    and it: "iterate (ord_items req) = Some (pre @ e # rest)"
    and pre: "\<forall>x \<in> set pre. accepted eng x s"
    and cs: "set cs \<subseteq> {Select ''products'', Select ''product_sizes''}"
    and stop: "\<And>out t. lookups_only (order_inserted (ord_user_id req) now s) t \<Longrightarrow>
                 format_items eng flt (next_order_id s) (e # rest) out t =
                   (Inl early, t\<lparr>trace := trace t @ cs\<rparr>)"
  shows "fst (create_order eng flt now req s) = early"
    and "orders (snd (create_order eng flt now req s)) =
           orders s @ [new_order (ord_user_id req) now s]"
    and "orderitems (snd (create_order eng flt now req s)) = orderitems s"
    and "\<exists>sel. calls_made s (snd (create_order eng flt now req s)) = Insert ''orders'' # sel \<and>
               set sel \<subseteq> {Select ''products'', Select ''product_sizes''}"
proof -
  let ?s0 = "order_inserted (ord_user_id req) now s"
  from pre have "\<forall>x \<in> set pre. accepted eng x ?s0"
    by (simp add: accepted_order_inserted)
  from format_items_accepted_prefix[OF nf this, of "next_order_id s" "e # rest" "[]"]
  obtain s1 out' where lo: "lookups_only ?s0 s1"
    and eq: "format_items eng flt (next_order_id s) (pre @ e # rest) [] ?s0 =
             format_items eng flt (next_order_id s) (e # rest) out' s1"
    by blast
  have fi: "format_items eng flt (next_order_id s) (pre @ e # rest) [] ?s0 =
             (Inl early, s1\<lparr>trace := trace s1 @ cs\<rparr>)"
    using eq stop[OF lo] by simp
  have ne: "\<not> items_falsy (ord_items req)" "\<not> length_is_zero (ord_items req)"
    using iterate_nonempty[OF it] by simp_all
  have ins: "flt (length (trace s)) = NoFault"
    using nf by simp
  have res: "create_order eng flt now req s = (early, s1\<lparr>trace := trace s1 @ cs\<rparr>)"
    using create_order_after_insert[where flt = flt and s = s and req = req and now = now
        and eng = eng, OF user ne ins] it fi
    by simp
  from after_order_inserted(3)[OF lo] obtain sel where
    sel: "trace s1 = trace s @ Insert ''orders'' # sel"
      "set sel \<subseteq> {Select ''products'', Select ''product_sizes''}"
    by blast
  show "fst (create_order eng flt now req s) = early"
    using res by simp
  show "orders (snd (create_order eng flt now req s)) =
           orders s @ [new_order (ord_user_id req) now s]"
    using res after_order_inserted(1)[OF lo] by simp
  show "orderitems (snd (create_order eng flt now req s)) = orderitems s"
    using res after_order_inserted(2)[OF lo] by simp
  have "calls_made s (snd (create_order eng flt now req s)) = Insert ''orders'' # (sel @ cs)"
    using res sel(1) by (simp add: calls_made_def)
  moreover have "set (sel @ cs) \<subseteq> {Select ''products'', Select ''product_sizes''}"
    using sel(2) cs by simp
  ultimately show "\<exists>sel. calls_made s (snd (create_order eng flt now req s)) =
               Insert ''orders'' # sel \<and>
               set sel \<subseteq> {Select ''products'', Select ''product_sizes''}"
    by blast
qed

lemma malformed_literal: "integer_literal ''-1.5'' = None"
  by (simp add: integer_literal_def trim_def is_space_def unsigned_literal_def is_digit_def)

text \<open>
  C6, as stated, fails for \<open>POST /api/orders\<close>: an item list whose item has quantity 0 is
  answered with the item validation error (400) after the order row has been inserted.
\<close>

theorem create_order_item_checked_after_insert_counterexample:
  "status (fst (create_order nan_engine no_faults ''t1'' zero_quantity_order scenario)) = 400 \<and>
   json (fst (create_order nan_engine no_faults ''t1'' zero_quantity_order scenario)) =
     ErrorBody ''Each item must have a valid product_id and quantity.'' \<and>
   calls_made scenario (snd (create_order nan_engine no_faults ''t1'' zero_quantity_order scenario)) =
     [Insert ''orders''] \<and>
   orders (snd (create_order nan_engine no_faults ''t1'' zero_quantity_order scenario)) =
     orders scenario @ [new_order (JStr ''u1'') ''t1'' scenario]"
  by (simp add: run_defs item_defs calls_made_def)

text \<open>
  C6, amended. A missing \<open>user_id\<close> in \<open>POST /api/cart/place-order\<close>, and a missing
  \<open>user_id\<close> or an \<open>items\<close> value that is falsy or has length 0 in \<open>POST /api/orders\<close>, are
  answered with 400 before any store access: the state, trace included, is unchanged. The
  checks of the single items in \<open>POST /api/orders\<close> run after the order insert. When no store
  call fails, the elements before an element are accepted, and that element is not \<open>null\<close>
  and fails the item check (\<open>product_id\<close> or \<open>quantity\<close> falsy, or \<open>quantity <= 0\<close>), the
  response is the item validation error with status 400, the order row has been inserted,
  the calls made are the order insert followed by product and size lookups only, and nothing
  was inserted into orderitems. Whenever the response is the item validation error, it is a
  400 given in that same situation.
\<close>

theorem validation_before_store_access:
  "(\<not> truthy (req_user_id preq) \<longrightarrow>
      place_order flt now preq s =
        (respond 400 (ErrorBody ''User ID is required to place an order.''), s)) \<and>
   (\<not> truthy (ord_user_id req) \<or> items_falsy (ord_items req) \<or> length_is_zero (ord_items req) \<longrightarrow>
      create_order eng flt now req s =
        (respond 400 (ErrorBody ''User ID and at least one item are required to create an order.''), s)) \<and>
   ((\<forall>k. flt k = NoFault) \<and> truthy (ord_user_id req) \<and>
    iterate (ord_items req) = Some (pre @ e # rest) \<and> (\<forall>x \<in> set pre. accepted eng x s) \<and>
    read_item e = Some it \<and> \<not> well_formed eng it \<longrightarrow>
      fst (create_order eng flt now req s) =
        respond 400 (ErrorBody ''Each item must have a valid product_id and quantity.'') \<and>
      orders (snd (create_order eng flt now req s)) =
        orders s @ [new_order (ord_user_id req) now s] \<and>
      orderitems (snd (create_order eng flt now req s)) = orderitems s \<and>
      (\<exists>sel. calls_made s (snd (create_order eng flt now req s)) = Insert ''orders'' # sel \<and>
             set sel \<subseteq> {Select ''products'', Select ''product_sizes''})) \<and>
   (json (fst (create_order eng flt now req s)) =
      ErrorBody ''Each item must have a valid product_id and quantity.'' \<longrightarrow>
      status (fst (create_order eng flt now req s)) = 400 \<and>
      orders (snd (create_order eng flt now req s)) =
        orders s @ [new_order (ord_user_id req) now s] \<and>
      orderitems (snd (create_order eng flt now req s)) = orderitems s \<and>
      (\<exists>sel. calls_made s (snd (create_order eng flt now req s)) = Insert ''orders'' # sel \<and>
             set sel \<subseteq> {Select ''products'', Select ''product_sizes''}))"
proof -
  let ?r = "create_order eng flt now req s"
  have a: "place_order flt now preq s =
        (respond 400 (ErrorBody ''User ID is required to place an order.''), s)"
    if "\<not> truthy (req_user_id preq)"
    using that by (simp add: place_order_def)
  have b: "?r =
        (respond 400 (ErrorBody ''User ID and at least one item are required to create an order.''), s)"
    if "\<not> truthy (ord_user_id req) \<or> items_falsy (ord_items req) \<or> length_is_zero (ord_items req)"
    using that by (rule create_order_rejected)
  have c: "fst ?r = respond 400 (ErrorBody ''Each item must have a valid product_id and quantity.'') \<and>
      orders (snd ?r) = orders s @ [new_order (ord_user_id req) now s] \<and>
      orderitems (snd ?r) = orderitems s \<and>
      (\<exists>sel. calls_made s (snd ?r) = Insert ''orders'' # sel \<and>
             set sel \<subseteq> {Select ''products'', Select ''product_sizes''})"
    if nf: "\<forall>k. flt k = NoFault" and user: "truthy (ord_user_id req)"
      and it: "iterate (ord_items req) = Some (pre @ e # rest)"
      and pre: "\<forall>x \<in> set pre. accepted eng x s"
      and rd: "read_item e = Some it" and bad: "\<not> well_formed eng it"
  proof -
    have stop: "format_items eng flt (next_order_id s) (e # rest) out t =
        (Inl (respond 400 (ErrorBody ''Each item must have a valid product_id and quantity.'')),
         t\<lparr>trace := trace t @ []\<rparr>)" for out t
      using format_items_malformed[OF rd bad] by simp
    show ?thesis
      using create_order_stops_at[where cs = "[]", OF nf user it pre _ stop] by simp
  qed
  have d: "status (fst ?r) = 400 \<and>
      orders (snd ?r) = orders s @ [new_order (ord_user_id req) now s] \<and>
      orderitems (snd ?r) = orderitems s \<and>
      (\<exists>sel. calls_made s (snd ?r) = Insert ''orders'' # sel \<and>
             set sel \<subseteq> {Select ''products'', Select ''product_sizes''})"
    if msg: "json (fst ?r) = ErrorBody ''Each item must have a valid product_id and quantity.''"
  proof (cases eng flt now req s rule: create_order_cases)
    case rejected
    with msg show ?thesis by (simp add: respond_def)
  next
    case no_order
    with msg show ?thesis by auto
  next
    case not_iterable
    with msg show ?thesis by (simp add: internal_error_def respond_def)
  next
    case (item_refused entries early s2)
    from format_items_result[OF item_refused(2)]
    have lo: "lookups_only (order_inserted (ord_user_id req) now s) s2"
      by simp
    from after_order_inserted(3)[OF lo] obtain sel where
      sel: "trace s2 = trace s @ Insert ''orders'' # sel"
        "set sel \<subseteq> {Select ''products'', Select ''product_sizes''}"
      by blast
    have "status early = 400"
      using format_items_early[OF item_refused(2)] msg item_refused(3) by simp
    moreover have "calls_made s s2 = Insert ''orders'' # sel"
      using sel(1) by (simp add: calls_made_def)
    ultimately show ?thesis
      using item_refused(3) sel(2) after_order_inserted(1,2)[OF lo] by simp
  next
    case (no_items entries out s2)
    with msg show ?thesis by auto
  next
    case (created entries out s2)
    with msg show ?thesis by (simp add: respond_def)
  qed
  show ?thesis
    using a b c d by blast
qed

theorem validation_before_store_access_witness:
  "\<not> truthy (req_user_id nobody) \<and>
   place_order no_faults ''t1'' nobody scenario =
     (respond 400 (ErrorBody ''User ID is required to place an order.''), scenario) \<and>
   items_falsy (ord_items no_items_order) \<and>
   create_order nan_engine no_faults ''t1'' no_items_order scenario =
     (respond 400 (ErrorBody ''User ID and at least one item are required to create an order.''),
      scenario) \<and>
   iterate (ord_items late_invalid_order) = Some ([ObjectEntry cake] @ ObjectEntry zero_quantity # []) \<and>
   accepted nan_engine (ObjectEntry cake) scenario \<and>
   \<not> well_formed nan_engine zero_quantity \<and>
   fst (create_order nan_engine no_faults ''t1'' late_invalid_order scenario) =
     respond 400 (ErrorBody ''Each item must have a valid product_id and quantity.'') \<and>
   orders (snd (create_order nan_engine no_faults ''t1'' late_invalid_order scenario)) =
     orders scenario @ [new_order (ord_user_id late_invalid_order) ''t1'' scenario] \<and>
   orderitems (snd (create_order nan_engine no_faults ''t1'' late_invalid_order scenario)) =
     orderitems scenario \<and>
   iterate (ord_items fraction_order) = Some ([] @ ObjectEntry negative_fraction # [ObjectEntry ghost]) \<and>
   \<not> well_formed fraction_engine negative_fraction \<and>
   fst (create_order fraction_engine no_faults ''t1'' fraction_order scenario) =
     respond 400 (ErrorBody ''Each item must have a valid product_id and quantity.'') \<and>
   json (fst (create_order nan_engine no_faults ''t1'' zero_quantity_order scenario)) =
     ErrorBody ''Each item must have a valid product_id and quantity.'' \<and>
   status (fst (create_order nan_engine no_faults ''t1'' zero_quantity_order scenario)) = 400 \<and>
   orderitems (snd (create_order nan_engine no_faults ''t1'' zero_quantity_order scenario)) =
     orderitems scenario"
proof -
  have nf: "\<forall>k. no_faults k = NoFault"
    by (simp add: no_faults_def)
  have h1: "\<not> truthy (req_user_id nobody)"
    by (simp add: nobody_def)
  have h2: "items_falsy (ord_items no_items_order)"
    by (simp add: no_items_order_def)
  have l1: "truthy (ord_user_id late_invalid_order)"
    and l2: "iterate (ord_items late_invalid_order) =
               Some ([ObjectEntry cake] @ ObjectEntry zero_quantity # [])"
    by (simp_all add: late_invalid_order_def)
  have l3: "\<forall>x \<in> set [ObjectEntry cake]. accepted nan_engine x scenario"
    by (simp add: accepted_def well_formed_def cake_def scenario_def)
  have l4: "read_item (ObjectEntry zero_quantity) = Some zero_quantity"
    by simp
  have l5: "\<not> well_formed nan_engine zero_quantity"
    by (simp add: well_formed_def zero_quantity_def)
  have f1: "truthy (ord_user_id fraction_order)"
    and f2: "iterate (ord_items fraction_order) =
               Some ([] @ ObjectEntry negative_fraction # [ObjectEntry ghost])"
    by (simp_all add: fraction_order_def)
  have f3: "\<forall>x \<in> set []. accepted fraction_engine x scenario"
    by simp
  have f4: "read_item (ObjectEntry negative_fraction) = Some negative_fraction"
    by simp
  have f5: "\<not> well_formed fraction_engine negative_fraction"
    by (simp add: well_formed_def negative_fraction_def malformed_literal fraction_engine_def)
  have z: "json (fst (create_order nan_engine no_faults ''t1'' zero_quantity_order scenario)) =
     ErrorBody ''Each item must have a valid product_id and quantity.''"
    by (simp add: run_defs item_defs)
  note first = validation_before_store_access[where preq = nobody and flt = no_faults
      and now = "''t1''" and s = scenario and req = no_items_order and eng = nan_engine]
  note late = validation_before_store_access[where flt = no_faults and now = "''t1''"
      and s = scenario and req = late_invalid_order and eng = nan_engine
      and pre = "[ObjectEntry cake]" and e = "ObjectEntry zero_quantity" and rest = "[]"
      and it = zero_quantity]
  note frac = validation_before_store_access[where flt = no_faults and now = "''t1''"
      and s = scenario and req = fraction_order and eng = fraction_engine
      and pre = "[]" and e = "ObjectEntry negative_fraction" and rest = "[ObjectEntry ghost]"
      and it = negative_fraction]
  note zero = validation_before_store_access[where flt = no_faults and now = "''t1''"
      and s = scenario and req = zero_quantity_order and eng = nan_engine]
  have c1: "place_order no_faults ''t1'' nobody scenario =
     (respond 400 (ErrorBody ''User ID is required to place an order.''), scenario)"
    using first h1 by blast
  have c2: "create_order nan_engine no_faults ''t1'' no_items_order scenario =
     (respond 400 (ErrorBody ''User ID and at least one item are required to create an order.''),
      scenario)"
    using first h2 by blast
  have c3: "fst (create_order nan_engine no_faults ''t1'' late_invalid_order scenario) =
       respond 400 (ErrorBody ''Each item must have a valid product_id and quantity.'') \<and>
     orders (snd (create_order nan_engine no_faults ''t1'' late_invalid_order scenario)) =
       orders scenario @ [new_order (ord_user_id late_invalid_order) ''t1'' scenario] \<and>
     orderitems (snd (create_order nan_engine no_faults ''t1'' late_invalid_order scenario)) =
       orderitems scenario"
    using late nf l1 l2 l3 l4 l5 by blast
  have c4: "fst (create_order fraction_engine no_faults ''t1'' fraction_order scenario) =
     respond 400 (ErrorBody ''Each item must have a valid product_id and quantity.'')"
    using frac nf f1 f2 f3 f4 f5 by blast
  have c5: "status (fst (create_order nan_engine no_faults ''t1'' zero_quantity_order scenario)) = 400 \<and>
     orderitems (snd (create_order nan_engine no_faults ''t1'' zero_quantity_order scenario)) =
       orderitems scenario"
    using zero z by blast
  show ?thesis
    using h1 c1 h2 c2 l2 l3 l5 c3 f2 f5 c4 z c5 by simp
qed



section \<open>The permission check\<close>

lemma select_superuser_result:
  "select_superuser flt uid s =
     (case flt (length (trace s)) of
        NoFault \<Rightarrow>
          (case filter (\<lambda>r. superuser_id r = uid) (superusers s) of
             [r] \<Rightarrow> Data (Some r)
           | _ \<Rightarrow> Error)
      | ReturnsError \<Rightarrow> Error
      | Throws \<Rightarrow> Thrown,
      s\<lparr>trace := trace s @ [Select ''superusers'']\<rparr>)"
  by (simp add: select_superuser_def single_def call_store_def Let_def
           split: fault.splits list.splits)

lemma isSuperUser_True_iff:
  "fst (isSuperUser flt uid s) = Returns True \<longleftrightarrow>
     flt (length (trace s)) = NoFault \<and>
     length (filter (\<lambda>r. superuser_id r = uid) (superusers s)) = 1"
  by (auto simp: isSuperUser_def select_superuser_result length_Suc_conv
           split: fault.splits list.splits)

lemma isSuperUser_boolean: "fst (isSuperUser flt uid s) = Returns True \<or> fst (isSuperUser flt uid s) = Returns False"
  by (simp add: isSuperUser_def select_superuser_result split: fault.splits list.splits)

lemma isSuperUser_variants: "isSuperUser_sizes flt uid s = isSuperUser flt uid s"
  by (simp add: isSuperUser_def isSuperUser_sizes_def select_superuser_result
           split: fault.splits list.splits)

lemma isSuperUser_reads_only:
  "snd (isSuperUser flt uid s) = s\<lparr>trace := trace s @ [Select ''superusers'']\<rparr>"
  by (simp add: isSuperUser_def select_superuser_result split: fault.splits list.splits)

lemma no_row_no_match:
  "\<not> superuser_row_exists uid s \<Longrightarrow> filter (\<lambda>r. superuser_id r = uid) (superusers s) = []"
  by (auto simp: superuser_row_exists_def filter_empty_conv)

lemma one_match_row:
  "length (filter (\<lambda>r. superuser_id r = uid) (superusers s)) = 1 \<Longrightarrow> superuser_row_exists uid s"
proof -
  assume "length (filter (\<lambda>r. superuser_id r = uid) (superusers s)) = 1"
  then obtain r where "filter (\<lambda>r. superuser_id r = uid) (superusers s) = [r]"
    by (auto simp: length_Suc_conv)
  then have "r \<in> set (filter (\<lambda>r. superuser_id r = uid) (superusers s))"
    by simp
  then show ?thesis
    by (auto simp: superuser_row_exists_def)
qed

text \<open>
  C8. \<open>isSuperUser\<close>, in both variants of the repository, never throws and settles with a
  boolean. It returns true only if a superusers row with the id exists (and the lookup did not
  fail); it returns false when no such row exists and when the lookup fails (an error answer
  or an exception), so the caller gets the same value in both cases. With one row for the id
  and no failure it returns true. It only reads: the state changes by the recorded lookup.
\<close>

theorem isSuperUser_boolean_never_throws:
  "(\<exists>b. fst (isSuperUser flt uid s) = Returns b) \<and>
   fst (isSuperUser_sizes flt uid s) = fst (isSuperUser flt uid s) \<and>
   (fst (isSuperUser flt uid s) = Returns True \<longrightarrow>
      superuser_row_exists uid s \<and> flt (length (trace s)) = NoFault) \<and>
   (\<not> superuser_row_exists uid s \<longrightarrow> fst (isSuperUser flt uid s) = Returns False) \<and>
   (flt (length (trace s)) \<noteq> NoFault \<longrightarrow> fst (isSuperUser flt uid s) = Returns False) \<and>
   (\<not> superuser_row_exists uid s \<and> flt' (length (trace s')) \<noteq> NoFault \<longrightarrow>
      fst (isSuperUser flt uid s) = fst (isSuperUser flt' uid s')) \<and>
   (flt (length (trace s)) = NoFault \<and>
    length (filter (\<lambda>r. superuser_id r = uid) (superusers s)) = 1 \<longrightarrow>
      fst (isSuperUser flt uid s) = Returns True) \<and>
   snd (isSuperUser flt uid s) = s\<lparr>trace := trace s @ [Select ''superusers'']\<rparr>"
proof -
  have absent: "fst (isSuperUser flt uid s) = Returns False" if "\<not> superuser_row_exists uid s"
    using isSuperUser_boolean[of flt uid s] no_row_no_match[OF that]
    by (auto simp: isSuperUser_True_iff)
  have failed: "fst (isSuperUser f uid t) = Returns False" if "f (length (trace t)) \<noteq> NoFault"
    for f t
    using isSuperUser_boolean[of f uid t] that by (auto simp: isSuperUser_True_iff)
  have true: "superuser_row_exists uid s \<and> flt (length (trace s)) = NoFault"
    if "fst (isSuperUser flt uid s) = Returns True"
    using that one_match_row by (simp add: isSuperUser_True_iff)
  show ?thesis
    using absent failed true isSuperUser_boolean[of flt uid s] isSuperUser_variants[of flt uid s]
      isSuperUser_reads_only[of flt uid s] isSuperUser_True_iff[of flt uid s]
    by metis
qed

theorem isSuperUser_boolean_never_throws_witness:
  "superuser_row_exists (JStr ''admin'') scenario \<and>
   fst (isSuperUser no_faults (JStr ''admin'') scenario) = Returns True \<and>
   \<not> superuser_row_exists (JStr ''u1'') scenario \<and>
   fst (isSuperUser no_faults (JStr ''u1'') scenario) = Returns False \<and>
   error_at 0 (length (trace scenario)) \<noteq> NoFault \<and>
   fst (isSuperUser (error_at 0) (JStr ''admin'') scenario) = Returns False \<and>
   throw_at 0 (length (trace scenario)) \<noteq> NoFault \<and>
   fst (isSuperUser (throw_at 0) (JStr ''admin'') scenario) = Returns False \<and>
   fst (isSuperUser no_faults (JStr ''u1'') scenario) =
     fst (isSuperUser (throw_at 0) (JStr ''u1'') scenario)"
proof -
  have a: "superuser_row_exists (JStr ''admin'') scenario"
    and a1: "length (filter (\<lambda>r. superuser_id r = JStr ''admin'') (superusers scenario)) = 1"
    and b: "\<not> superuser_row_exists (JStr ''u1'') scenario"
    by (simp_all add: superuser_row_exists_def scenario_def)
  have n: "no_faults (length (trace scenario)) = NoFault"
    and e: "error_at 0 (length (trace scenario)) \<noteq> NoFault"
    and t: "throw_at 0 (length (trace scenario)) \<noteq> NoFault"
    by (simp_all add: no_faults_def error_at_def throw_at_def scenario_def)
  have c1: "fst (isSuperUser no_faults (JStr ''admin'') scenario) = Returns True"
    using isSuperUser_boolean_never_throws[of no_faults "JStr ''admin''" scenario] n a1 by blast
  have c2: "fst (isSuperUser no_faults (JStr ''u1'') scenario) = Returns False"
    using isSuperUser_boolean_never_throws[of no_faults "JStr ''u1''" scenario] b by blast
  have c3: "fst (isSuperUser (error_at 0) (JStr ''admin'') scenario) = Returns False"
    using isSuperUser_boolean_never_throws[of "error_at 0" "JStr ''admin''" scenario] e by blast
  have c4: "fst (isSuperUser (throw_at 0) (JStr ''admin'') scenario) = Returns False"
    using isSuperUser_boolean_never_throws[of "throw_at 0" "JStr ''admin''" scenario] t by blast
  have c5: "fst (isSuperUser no_faults (JStr ''u1'') scenario) =
     fst (isSuperUser (throw_at 0) (JStr ''u1'') scenario)"
    using isSuperUser_boolean_never_throws[of no_faults "JStr ''u1''" scenario "throw_at 0" scenario]
      b t by blast
  show ?thesis
    using a c1 b c2 e c3 t c4 c5 by (intro conjI)
qed

section \<open>Adding to the cart\<close>

lemma cart_add_201_iff:
  "status (fst (cart_add eng flt now req s)) = 201 \<longleftrightarrow>
     truthy (add_user_id req) \<and> truthy (add_product_id req) \<and> \<not> js_le_zero eng (add_quantity req) \<and>
     flt (length (trace s)) = NoFault"
  by (simp add: cart_add_def store_defs split: fault.splits)

lemma cart_add_400_iff:
  "status (fst (cart_add eng flt now req s)) = 400 \<longleftrightarrow>
     \<not> truthy (add_user_id req) \<or> \<not> truthy (add_product_id req) \<or> js_le_zero eng (add_quantity req)"
  by (simp add: cart_add_def store_defs split: fault.splits)

lemma cart_add_success:
  assumes "status (fst (cart_add eng flt now req s)) = 201"
  shows "cart_add eng flt now req s =
     (respond 201 (CartItemBody ''Product added to cart successfully!''
        (Some \<lparr>cart_id = next_cart_id s, cart_user_id = add_user_id req,
               cart_product_id = add_product_id req, cart_size_id = js_or (add_size_id req) JNull,
               cart_quantity = js_or (add_quantity req) (JNum 1), added_at = now\<rparr>)),
      s\<lparr>trace := trace s @ [Insert ''cart''],
        cart := cart s @ [\<lparr>cart_id = next_cart_id s, cart_user_id = add_user_id req,
               cart_product_id = add_product_id req, cart_size_id = js_or (add_size_id req) JNull,
               cart_quantity = js_or (add_quantity req) (JNum 1), added_at = now\<rparr>],
        next_cart_id := Suc (next_cart_id s)\<rparr>)"
  using assms unfolding cart_add_201_iff
  by (simp add: cart_add_def insert_cart_def call_store_def Let_def)

lemma empty_string_is_zero: "js_le_zero eng (JStr [])"
  by (simp add: integer_literal_def trim_def)

lemma submitted_quantity_kept:
  assumes "\<not> js_le_zero eng q" and "q \<noteq> JUndefined"
  shows "js_or q (JNum 1) = q"
proof -
  have "truthy q"
  proof (cases q)
    case (JStr x)
    with assms(1) empty_string_is_zero show ?thesis by auto
  qed (use assms in auto)
  then show ?thesis by (simp add: js_or_def)
qed

text \<open>
  C9. Two successive successful \<open>POST /api/cart/add\<close> calls with the same user, product and
  size append two cart lines: after the first call the cart is the old cart plus one line,
  after the second it is the old cart plus two lines with different ids, both for that user,
  product and size. Each line carries the quantity of its own request (\<open>quantity || 1\<close>,
  which is the submitted quantity whenever one was submitted); no existing line is changed.
\<close>

theorem cart_add_twice_two_lines:
  assumes same: "add_user_id r2 = add_user_id r1" "add_product_id r2 = add_product_id r1"
      "add_size_id r2 = add_size_id r1"
    and ok1: "status (fst (cart_add eng flt now1 r1 s)) = 201"
    and ok2: "status (fst (cart_add eng flt now2 r2 (snd (cart_add eng flt now1 r1 s)))) = 201"
  shows "\<exists>l1 l2.
     cart (snd (cart_add eng flt now2 r2 (snd (cart_add eng flt now1 r1 s)))) = cart s @ [l1, l2] \<and>
     cart (snd (cart_add eng flt now1 r1 s)) = cart s @ [l1] \<and>
     l1 \<noteq> l2 \<and> cart_id l1 \<noteq> cart_id l2 \<and>
     cart_user_id l1 = add_user_id r1 \<and> cart_user_id l2 = add_user_id r1 \<and>
     cart_product_id l1 = add_product_id r1 \<and> cart_product_id l2 = add_product_id r1 \<and>
     cart_size_id l1 = js_or (add_size_id r1) JNull \<and> cart_size_id l2 = js_or (add_size_id r1) JNull \<and>
     cart_quantity l1 = js_or (add_quantity r1) (JNum 1) \<and>
     cart_quantity l2 = js_or (add_quantity r2) (JNum 1) \<and>
     (add_quantity r1 \<noteq> JUndefined \<longrightarrow> cart_quantity l1 = add_quantity r1) \<and>
     (add_quantity r2 \<noteq> JUndefined \<longrightarrow> cart_quantity l2 = add_quantity r2)"
proof -
  let ?s1 = "snd (cart_add eng flt now1 r1 s)"
  let ?l1 = "\<lparr>cart_id = next_cart_id s, cart_user_id = add_user_id r1,
               cart_product_id = add_product_id r1, cart_size_id = js_or (add_size_id r1) JNull,
               cart_quantity = js_or (add_quantity r1) (JNum 1), added_at = now1\<rparr>"
  let ?l2 = "\<lparr>cart_id = Suc (next_cart_id s), cart_user_id = add_user_id r1,
               cart_product_id = add_product_id r1, cart_size_id = js_or (add_size_id r1) JNull,
               cart_quantity = js_or (add_quantity r2) (JNum 1), added_at = now2\<rparr>"
  have first: "cart ?s1 = cart s @ [?l1]" "next_cart_id ?s1 = Suc (next_cart_id s)"
    by (simp_all add: cart_add_success[OF ok1])
  have second: "cart (snd (cart_add eng flt now2 r2 ?s1)) = cart s @ [?l1, ?l2]"
    using first same by (simp add: cart_add_success[OF ok2])
  have q1: "add_quantity r1 \<noteq> JUndefined \<longrightarrow> cart_quantity ?l1 = add_quantity r1"
    using ok1 submitted_quantity_kept[where q = "add_quantity r1" and eng = eng] by (simp add: cart_add_201_iff)
  have q2: "add_quantity r2 \<noteq> JUndefined \<longrightarrow> cart_quantity ?l2 = add_quantity r2"
    using ok2 submitted_quantity_kept[where q = "add_quantity r2" and eng = eng] by (simp add: cart_add_201_iff)
  have ne: "?l1 \<noteq> ?l2" "cart_id ?l1 \<noteq> cart_id ?l2"
    by simp_all
  show ?thesis
    using first(1) second q1 q2 ne by (intro exI[of _ ?l1] exI[of _ ?l2]) simp
qed

theorem cart_add_twice_two_lines_witness:
  "add_user_id add_three = add_user_id add_two \<and> add_product_id add_three = add_product_id add_two \<and>
   add_size_id add_three = add_size_id add_two \<and>
   status (fst (cart_add nan_engine no_faults ''t1'' add_two scenario)) = 201 \<and>
   status (fst (cart_add nan_engine no_faults ''t2'' add_three (snd (cart_add nan_engine no_faults ''t1'' add_two scenario)))) = 201 \<and>
   (\<exists>l1 l2.
      cart (snd (cart_add nan_engine no_faults ''t2'' add_three (snd (cart_add nan_engine no_faults ''t1'' add_two scenario)))) =
        cart scenario @ [l1, l2] \<and>
      l1 \<noteq> l2 \<and> cart_quantity l1 = JNum 2 \<and> cart_quantity l2 = JNum 3)"
proof -
  have same: "add_user_id add_three = add_user_id add_two"
    "add_product_id add_three = add_product_id add_two" "add_size_id add_three = add_size_id add_two"
    by (simp_all add: add_two_def add_three_def)
  have ok1: "status (fst (cart_add nan_engine no_faults ''t1'' add_two scenario)) = 201"
    by (simp add: cart_add_201_iff add_two_def no_faults_def)
  have ok2: "status (fst (cart_add nan_engine no_faults ''t2'' add_three
                 (snd (cart_add nan_engine no_faults ''t1'' add_two scenario)))) = 201"
    by (simp add: cart_add_201_iff add_three_def no_faults_def)
  have q: "add_quantity add_two = JNum 2" "add_quantity add_three = JNum 3"
    by (simp_all add: add_two_def add_three_def)
  from cart_add_twice_two_lines[OF same ok1 ok2] q
  have "\<exists>l1 l2.
      cart (snd (cart_add nan_engine no_faults ''t2'' add_three (snd (cart_add nan_engine no_faults ''t1'' add_two scenario)))) =
        cart scenario @ [l1, l2] \<and>
      l1 \<noteq> l2 \<and> cart_quantity l1 = JNum 2 \<and> cart_quantity l2 = JNum 3"
    by (auto simp: js_or_def)
  with same ok1 ok2 show ?thesis
    by (intro conjI)
qed

text \<open>
  C10. A \<open>POST /api/cart/add\<close> request with \<open>user_id\<close> and \<open>product_id\<close> present and no
  \<open>quantity\<close> is not answered with 400: the handler goes on to the insert, and when the
  insert succeeds the response is 201 and the new cart line has quantity 1.
\<close>

theorem cart_add_absent_quantity_defaults:
  assumes "truthy (add_user_id req)" and "truthy (add_product_id req)"
    and "add_quantity req = JUndefined"
  shows "status (fst (cart_add eng flt now req s)) \<noteq> 400 \<and>
         trace (snd (cart_add eng flt now req s)) = trace s @ [Insert ''cart''] \<and>
         (flt (length (trace s)) = NoFault \<longrightarrow>
            status (fst (cart_add eng flt now req s)) = 201 \<and>
            (\<exists>l. cart (snd (cart_add eng flt now req s)) = cart s @ [l] \<and>
                 cart_quantity l = JNum 1 \<and>
                 json (fst (cart_add eng flt now req s)) =
                   CartItemBody ''Product added to cart successfully!'' (Some l)))"
proof -
  have pass: "\<not> js_le_zero eng (add_quantity req)"
    using assms(3) by (simp add:)
  have a: "status (fst (cart_add eng flt now req s)) \<noteq> 400"
    using assms(1,2) pass by (simp add: cart_add_400_iff)
  have b: "trace (snd (cart_add eng flt now req s)) = trace s @ [Insert ''cart'']"
    using assms(1,2) pass
    by (simp add: cart_add_def insert_cart_def call_store_def Let_def split: fault.splits)
  have c: "status (fst (cart_add eng flt now req s)) = 201 \<and>
            (\<exists>l. cart (snd (cart_add eng flt now req s)) = cart s @ [l] \<and>
                 cart_quantity l = JNum 1 \<and>
                 json (fst (cart_add eng flt now req s)) =
                   CartItemBody ''Product added to cart successfully!'' (Some l))"
    if nf: "flt (length (trace s)) = NoFault"
  proof -
    have ok: "status (fst (cart_add eng flt now req s)) = 201"
      using assms(1,2) pass nf by (simp add: cart_add_201_iff)
    show ?thesis
      using ok assms(3) by (simp add: cart_add_success[OF ok] js_or_def respond_def)
  qed
  show ?thesis
    using a b c by blast
qed

theorem cart_add_absent_quantity_defaults_witness:
  "truthy (add_user_id add_no_quantity) \<and> truthy (add_product_id add_no_quantity) \<and>
   add_quantity add_no_quantity = JUndefined \<and> no_faults (length (trace scenario)) = NoFault \<and>
   status (fst (cart_add nan_engine no_faults ''t1'' add_no_quantity scenario)) = 201 \<and>
   (\<exists>l. cart (snd (cart_add nan_engine no_faults ''t1'' add_no_quantity scenario)) = cart scenario @ [l] \<and>
        cart_quantity l = JNum 1)"
proof -
  have h: "truthy (add_user_id add_no_quantity)" "truthy (add_product_id add_no_quantity)"
    "add_quantity add_no_quantity = JUndefined"
    by (simp_all add: add_no_quantity_def)
  have n: "no_faults (length (trace scenario)) = NoFault"
    by (simp add: no_faults_def)
  from cart_add_absent_quantity_defaults[OF h, where eng = nan_engine and flt = no_faults
      and now = "''t1''" and s = scenario] n
  have "status (fst (cart_add nan_engine no_faults ''t1'' add_no_quantity scenario)) = 201 \<and>
   (\<exists>l. cart (snd (cart_add nan_engine no_faults ''t1'' add_no_quantity scenario)) = cart scenario @ [l] \<and>
        cart_quantity l = JNum 1)"
    by blast
  with h n show ?thesis
    by (intro conjI) simp_all
qed

section \<open>The handlers keep the store invariant\<close>

lemma db_ok_trace [simp]: "db_ok (s\<lparr>trace := tr\<rparr>) = db_ok s"
  by (simp add: db_ok_def)

lemma place_order_keeps_db_ok: "db_ok s \<Longrightarrow> db_ok (snd (place_order flt now req s))"
  by (auto simp: place_order_def store_defs db_ok_def cart_of_def to_order_item_def less_Suc_eq
           split: fault.splits)

lemma cart_add_keeps_db_ok: "db_ok s \<Longrightarrow> db_ok (snd (cart_add eng flt now req s))"
  by (auto simp: cart_add_def store_defs db_ok_def less_Suc_eq split: fault.splits)

lemma db_ok_lookups: "lookups_only s s' \<Longrightarrow> db_ok s' = db_ok s"
  by (auto simp: lookups_only_def)

lemma db_ok_order_inserted: "db_ok s \<Longrightarrow> db_ok (order_inserted uid now s)"
  by (auto simp: db_ok_def order_inserted_def new_order_def less_Suc_eq)

lemma create_order_keeps_db_ok:
  assumes "db_ok s"
  shows "db_ok (snd (create_order eng flt now req s))"
proof (cases eng flt now req s rule: create_order_cases)
  case rejected
  with assms show ?thesis by simp
next
  case no_order
  with assms show ?thesis by simp
next
  case not_iterable
  with db_ok_order_inserted[OF assms] show ?thesis by simp
next
  case (item_refused entries early s2)
  from format_items_result[OF item_refused(2)]
  have "lookups_only (order_inserted (ord_user_id req) now s) s2"
    by simp
  with db_ok_order_inserted[OF assms] item_refused(3) show ?thesis
    by (simp add: db_ok_lookups)
next
  case (no_items entries out s2)
  from format_items_result[OF no_items(2)]
  have "lookups_only (order_inserted (ord_user_id req) now s) s2"
    by simp
  with db_ok_order_inserted[OF assms] no_items(6) show ?thesis
    by (simp add: db_ok_lookups)
next
  case (created entries out s2)
  from format_items_result[OF created(2)]
  have lo: "lookups_only (order_inserted (ord_user_id req) now s) s2"
    by simp
  then have ok2: "db_ok s2"
    using db_ok_order_inserted[OF assms] by (simp add: db_ok_lookups)
  have "next_order_id s2 = Suc (next_order_id s)"
    using lo by (auto simp: lookups_only_def order_inserted_def)
  with ok2 created(4,5) show ?thesis
    by (auto simp: db_ok_def formatted_def)
qed

end
